theory Spec2Isabelle
  imports Main "HOL-Library.Multiset"
begin

section \<open>The buildlogger routes of cedar (rest/buildlogger\_routes.go)\<close>

text \<open>
  The file holds seven route handlers; each has a \<open>Factory\<close>, a \<open>Parse\<close> that fills
  the handler from the request, and a \<open>Run\<close> that builds the options, calls the
  connector and wraps the result. The handlers that read a log's content
  (by id, by task id, by test name, by group), the metadata handler by test name and
  \<open>newBuildloggerResponder\<close> are embedded here.

  What the file imports and does not define is kept outside the model:
  the connector (\<open>data.Connector\<close>) is a record of functions over a store state,
  and \<open>parseTimeRange\<close>, \<open>time.Time.Format\<close> and \<open>SetPages\<close> are the fields of
  a record of dependencies that every function using them takes as its first argument.
\<close>

subsection \<open>Instants and time ranges\<close>

text \<open>
  A \<open>time.Time\<close> is read through \<open>IsZero\<close>, \<open>After\<close> and \<open>Before\<close> only, which
  look at the instant and nothing else. An instant is the number of nanoseconds since
  the zero instant (January 1, year 1, 00:00:00 UTC); instants before it are negative.
\<close>

type_synonym Time = int

definition Time_IsZero :: "Time \<Rightarrow> bool" where
  "Time_IsZero t = (t = 0)"

definition Time_After :: "Time \<Rightarrow> Time \<Rightarrow> bool" where
  "Time_After t u = (u < t)"

definition Time_Before :: "Time \<Rightarrow> Time \<Rightarrow> bool" where
  "Time_Before t u = (t < u)"

record TimeRange =
  StartAt :: Time
  EndAt :: Time

text \<open>
  Modelled from the spec: \<open>util.TimeRange.IsZero\<close> is declared in the util package,
  outside this file; the spec says that zero means both fields are the zero instant.
\<close>

definition TimeRange_IsZero :: "TimeRange \<Rightarrow> bool" where
  "TimeRange_IsZero t = (Time_IsZero (EndAt t) \<and> Time_IsZero (StartAt t))"

definition zeroTimeRange :: TimeRange where
  "zeroTimeRange = \<lparr>StartAt = 0, EndAt = 0\<rparr>"

subsection \<open>Errors\<close>

text \<open>
  The error values the handlers see: a \<open>gimlet.ErrorResponse\<close> with its status code
  and message, a \<open>strconv.NumError\<close>, any other error, an error wrapped by
  \<open>errors.Wrapf\<close>, and what \<open>catcher.Resolve\<close> returns for a catcher that holds
  errors (grip joins their messages; the list is kept here).
\<close>

datatype numErr = ErrSyntax | ErrRange

datatype error =
    ErrorResponse int string
  | NumError string string numErr
  | OtherError string
  | Wrapf error string
  | Resolved "error list"

definition StatusNotFound :: int where
  "StatusNotFound = 404"

text \<open>\<open>grip.NewBasicCatcher\<close>: \<open>Add\<close> ignores nil, \<open>Resolve\<close> is nil when nothing was added.\<close>

type_synonym catcher = "error list"

definition catcher_Add :: "catcher \<Rightarrow> error option \<Rightarrow> catcher" where
  "catcher_Add c e = (case e of None \<Rightarrow> c | Some x \<Rightarrow> c @ [x])"

definition catcher_Resolve :: "catcher \<Rightarrow> error option" where
  "catcher_Resolve c = (if c = [] then None else Some (Resolved c))"

text \<open>The entries of a resolved error: the errors the catcher held.\<close>

fun entries :: "error option \<Rightarrow> error list" where
  "entries None = []"
| "entries (Some (Resolved es)) = es"
| "entries (Some e) = [e]"

definition quoted :: "string \<Rightarrow> string" where
  "quoted s = [CHR 0x27] @ s @ [CHR 0x27]"

subsection \<open>Requests\<close>

text \<open>
  \<open>url.Values\<close> is a map from a key to the list of its values, in the order of the
  query string; a key that is absent has no value. \<open>Get\<close> is the first value, or the
  empty string. \<open>gimlet.GetVars\<close> is the map of the path variables.
\<close>

type_synonym Values = "string \<Rightarrow> string list"

definition Values_Get :: "Values \<Rightarrow> string \<Rightarrow> string" where
  "Values_Get vals key = (case vals key of [] \<Rightarrow> [] | v # _ \<Rightarrow> v)"

record Request =
  Vars :: "string \<Rightarrow> string"
  Query :: Values

definition logStartAt :: string where "logStartAt = ''start''"
definition logEndAt :: string where "logEndAt = ''end''"
definition execution_param :: string where "execution_param = ''execution''"
definition procName_param :: string where "procName_param = ''proc_name''"
definition tags_param :: string where "tags_param = ''tags''"
definition printTime_param :: string where "printTime_param = ''print_time''"
definition printPriority_param :: string where "printPriority_param = ''print_priority''"
definition limit_param :: string where "limit_param = ''limit''"
definition paginate_param :: string where "paginate_param = ''paginate''"
definition trueString :: string where "trueString = ''true''"
definition softSizeLimit :: int where "softSizeLimit = 10 * 1024 * 1024"
definition baseURL :: string where "baseURL = ''https://cedar.mongodb.com''"

subsection \<open>strconv.Atoi\<close>

text \<open>
  \<open>strconv.Atoi s\<close> is \<open>ParseInt s 10 0\<close> with a 64-bit \<open>int\<close>: an optional sign, then
  at least one decimal digit and nothing else. A character that is no digit is a syntax
  error with value 0; a value outside the 64-bit range is a range error with the
  nearest bound as value.
\<close>

definition isDigit :: "char \<Rightarrow> bool" where
  "isDigit c = (48 \<le> (of_char c :: nat) \<and> (of_char c :: nat) \<le> 57)"

definition digitVal :: "char \<Rightarrow> nat" where
  "digitVal c = of_char c - 48"

definition maxUint64 :: nat where
  "maxUint64 = 2 ^ 64 - 1"

fun ParseUint_loop :: "string \<Rightarrow> nat \<Rightarrow> numErr + nat" where
  "ParseUint_loop [] n = Inr n"
| "ParseUint_loop (c # cs) n =
     (if \<not> isDigit c then Inl ErrSyntax
      else if maxUint64 < n * 10 + digitVal c then Inl ErrRange
      else ParseUint_loop cs (n * 10 + digitVal c))"

definition ParseUint :: "string \<Rightarrow> nat \<times> numErr option" where
  "ParseUint s =
     (if s = [] then (0, Some ErrSyntax)
      else (case ParseUint_loop s 0 of
              Inl ErrSyntax \<Rightarrow> (0, Some ErrSyntax)
            | Inl ErrRange \<Rightarrow> (maxUint64, Some ErrRange)
            | Inr n \<Rightarrow> (n, None)))"

definition ParseInt :: "string \<Rightarrow> int \<times> numErr option" where
  "ParseInt s =
     (case s of
        [] \<Rightarrow> (0, Some ErrSyntax)
      | c # cs \<Rightarrow>
          (let neg = (c = CHR ''-'');
               s1 = (if c = CHR ''+'' \<or> c = CHR ''-'' then cs else s)
           in (case ParseUint s1 of
                 (un, Some ErrSyntax) \<Rightarrow> (0, Some ErrSyntax)
               | (un, _) \<Rightarrow>
                   if \<not> neg \<and> 2 ^ 63 \<le> un then (2 ^ 63 - 1, Some ErrRange)
                   else if neg \<and> 2 ^ 63 < un then (- (2 ^ 63), Some ErrRange)
                   else (if neg then - int un else int un, None))))"

definition Atoi :: "string \<Rightarrow> int \<times> error option" where
  "Atoi s = (case ParseInt s of
               (i, None) \<Rightarrow> (i, None)
             | (i, Some e) \<Rightarrow> (i, Some (NumError ''Atoi'' s e)))"

subsection \<open>Options, metadata and the connector\<close>

text \<open>
  \<open>data.BuildloggerOptions\<close> with the fields the handlers set; a field a handler does
  not set has Go's zero value, as in \<open>zeroOptions\<close>.
\<close>

record BuildloggerOptions =
  ID :: string
  TaskID :: string
  TestName :: string
  Execution :: int
  ProcessName :: string
  Tags :: "string list"
  TimeRange :: TimeRange
  PrintTime :: bool
  PrintPriority :: bool
  Limit :: int
  Tail :: int
  SoftSizeLimit :: int

definition zeroOptions :: BuildloggerOptions where
  "zeroOptions =
     \<lparr>ID = [], TaskID = [], TestName = [], Execution = 0, ProcessName = [], Tags = [],
      TimeRange = zeroTimeRange, PrintTime = False, PrintPriority = False,
      Limit = 0, Tail = 0, SoftSizeLimit = 0\<rparr>"

text \<open>
  An entry of log metadata (\<open>model.APILog\<close>), with the fields the handlers read.
  The two instants are \<open>model.APITime\<close> values, which the code converts with
  \<open>time.Time(...)\<close>; they are instants here.
\<close>

record APILog =
  LogID :: string
  CreatedAt :: Time
  CompletedAt :: Time

type_synonym bytes = string

type_synonym LogResult = "bytes \<times> Time \<times> bool \<times> error option"

type_synonym MetaResult = "APILog list \<times> error option"

text \<open>
  The connector's methods the embedded handlers call. A method reads and may change the
  store (\<open>'s\<close>); it returns all its Go results, the error last (\<open>None\<close> is nil), so a
  result may hold both a list and an error.
\<close>

record 's Connector =
  FindLogByID :: "BuildloggerOptions \<Rightarrow> 's \<Rightarrow> LogResult \<times> 's"
  FindLogsByTaskID :: "BuildloggerOptions \<Rightarrow> 's \<Rightarrow> LogResult \<times> 's"
  FindLogsByTestName :: "BuildloggerOptions \<Rightarrow> 's \<Rightarrow> LogResult \<times> 's"
  FindGroupedLogs :: "BuildloggerOptions \<Rightarrow> 's \<Rightarrow> LogResult \<times> 's"
  FindLogMetadataByTestName :: "BuildloggerOptions \<Rightarrow> 's \<Rightarrow> MetaResult \<times> 's"

text \<open>
  A handler runs in a world: the store and the list of the connector calls made so far,
  each with the options it was given. The list is how a theorem speaks of what is
  passed to the store and of a call that is not made.
\<close>

datatype StoreCall =
    Call_FindLogByID BuildloggerOptions
  | Call_FindLogsByTaskID BuildloggerOptions
  | Call_FindLogsByTestName BuildloggerOptions
  | Call_FindGroupedLogs BuildloggerOptions
  | Call_FindLogMetadataByTestName BuildloggerOptions

fun callOpts :: "StoreCall \<Rightarrow> BuildloggerOptions" where
  "callOpts (Call_FindLogByID opts) = opts"
| "callOpts (Call_FindLogsByTaskID opts) = opts"
| "callOpts (Call_FindLogsByTestName opts) = opts"
| "callOpts (Call_FindGroupedLogs opts) = opts"
| "callOpts (Call_FindLogMetadataByTestName opts) = opts"

fun isGroupedCall :: "StoreCall \<Rightarrow> bool" where
  "isGroupedCall (Call_FindGroupedLogs opts) = True"
| "isGroupedCall c = False"

fun isMetadataCall :: "StoreCall \<Rightarrow> bool" where
  "isMetadataCall (Call_FindLogMetadataByTestName opts) = True"
| "isMetadataCall c = False"

record 's World =
  store :: 's
  calls :: "StoreCall list"

definition newCalls :: "'s World \<Rightarrow> 's World \<Rightarrow> StoreCall list" where
  "newCalls w w' = drop (length (calls w)) (calls w')"

definition call_FindLogByID ::
  "'s Connector \<Rightarrow> BuildloggerOptions \<Rightarrow> 's World \<Rightarrow> LogResult \<times> 's World" where
  "call_FindLogByID c opts w =
     (case FindLogByID c opts (store w) of
        (res, s) \<Rightarrow> (res, \<lparr>store = s, calls = calls w @ [Call_FindLogByID opts]\<rparr>))"

definition call_FindLogsByTaskID ::
  "'s Connector \<Rightarrow> BuildloggerOptions \<Rightarrow> 's World \<Rightarrow> LogResult \<times> 's World" where
  "call_FindLogsByTaskID c opts w =
     (case FindLogsByTaskID c opts (store w) of
        (res, s) \<Rightarrow> (res, \<lparr>store = s, calls = calls w @ [Call_FindLogsByTaskID opts]\<rparr>))"

definition call_FindLogsByTestName ::
  "'s Connector \<Rightarrow> BuildloggerOptions \<Rightarrow> 's World \<Rightarrow> LogResult \<times> 's World" where
  "call_FindLogsByTestName c opts w =
     (case FindLogsByTestName c opts (store w) of
        (res, s) \<Rightarrow> (res, \<lparr>store = s, calls = calls w @ [Call_FindLogsByTestName opts]\<rparr>))"

definition call_FindGroupedLogs ::
  "'s Connector \<Rightarrow> BuildloggerOptions \<Rightarrow> 's World \<Rightarrow> LogResult \<times> 's World" where
  "call_FindGroupedLogs c opts w =
     (case FindGroupedLogs c opts (store w) of
        (res, s) \<Rightarrow> (res, \<lparr>store = s, calls = calls w @ [Call_FindGroupedLogs opts]\<rparr>))"

definition call_FindLogMetadataByTestName ::
  "'s Connector \<Rightarrow> BuildloggerOptions \<Rightarrow> 's World \<Rightarrow> MetaResult \<times> 's World" where
  "call_FindLogMetadataByTestName c opts w =
     (case FindLogMetadataByTestName c opts (store w) of
        (res, s) \<Rightarrow> (res, \<lparr>store = s, calls = calls w @ [Call_FindLogMetadataByTestName opts]\<rparr>))"

subsection \<open>Responders and pages\<close>

text \<open>
  \<open>gimlet.Page\<close> and \<open>gimlet.ResponsePages\<close>. The \<open>Limit\<close> of a page is \<open>PageLimit\<close>
  here (the options have a \<open>Limit\<close> too); the code sets none, so it is 0. A responder is a text response with its optional pages, a JSON error response
  or a JSON response of metadata.
\<close>

record Page =
  BaseURL :: string
  KeyQueryParam :: string
  LimitQueryParam :: string
  Key :: string
  PageLimit :: int
  Relation :: string

record ResponsePages =
  Next :: "Page option"
  Prev :: "Page option"

datatype Responder =
    TextResponder bytes "ResponsePages option"
  | MakeJSONErrorResponder error
  | NewJSONResponse "APILog list"

definition NewTextResponse :: "bytes \<Rightarrow> Responder" where
  "NewTextResponse data = TextResponder data None"

text \<open>
  What the file calls and does not define: \<open>parseTimeRange\<close> (of this package, in
  another file), which returns a range and an error, \<open>time.Time.Format\<close> with the
  layout \<open>time.RFC3339\<close>, and \<open>gimlet\<close>'s \<open>SetPages\<close>, which validates the pages and
  may refuse them.
\<close>

record Deps =
  parseTimeRange :: "Values \<Rightarrow> string \<Rightarrow> string \<Rightarrow> TimeRange \<times> error option"
  Format_RFC3339 :: "Time \<Rightarrow> string"
  SetPages :: "ResponsePages \<Rightarrow> error option"

text \<open>The pages \<open>newBuildloggerResponder\<close> builds (lines 493 to 508).\<close>

definition newPages :: "Deps \<Rightarrow> Time \<Rightarrow> Time \<Rightarrow> ResponsePages" where
  "newPages d lastT nextT =
     \<lparr>Next = Some \<lparr>BaseURL = baseURL, KeyQueryParam = ''start'', LimitQueryParam = ''limit'',
                    Key = Format_RFC3339 d nextT, PageLimit = 0, Relation = ''next''\<rparr>,
      Prev = Some \<lparr>BaseURL = baseURL, KeyQueryParam = ''start'', LimitQueryParam = ''limit'',
                    Key = Format_RFC3339 d lastT, PageLimit = 0, Relation = ''prev''\<rparr>\<rparr>"

definition newBuildloggerResponder ::
  "Deps \<Rightarrow> bytes \<Rightarrow> Time \<Rightarrow> Time \<Rightarrow> bool \<Rightarrow> Responder" where
  "newBuildloggerResponder d data lastT nextT paginated =
     (if paginated then
        (let pages = newPages d lastT nextT
         in (case SetPages d pages of
               Some err \<Rightarrow> MakeJSONErrorResponder (Wrapf err ''problem setting response pages'')
             | None \<Rightarrow> TextResponder data (Some pages)))
      else NewTextResponse data)"

subsection \<open>GET /buildlogger/{id}\<close>

record 's logGetByIDHandler =
  id :: string
  tr :: TimeRange
  printTime :: bool
  printPriority :: bool
  paginate :: bool
  limit :: int
  sc :: "'s Connector"

text \<open>A new handler holds the connector; every other field has Go's zero value.\<close>

definition makeGetLogByID :: "'s Connector \<Rightarrow> 's logGetByIDHandler" where
  "makeGetLogByID c =
     \<lparr>logGetByIDHandler.id = [], logGetByIDHandler.tr = zeroTimeRange,
      logGetByIDHandler.printTime = False, logGetByIDHandler.printPriority = False,
      logGetByIDHandler.paginate = False, logGetByIDHandler.limit = 0,
      logGetByIDHandler.sc = c\<rparr>"

definition logGetByIDHandler_Factory :: "'s logGetByIDHandler \<Rightarrow> 's logGetByIDHandler" where
  "logGetByIDHandler_Factory h = makeGetLogByID (logGetByIDHandler.sc h)"

definition logGetByIDHandler_Parse ::
  "Deps \<Rightarrow> 's logGetByIDHandler \<Rightarrow> Request \<Rightarrow> 's logGetByIDHandler \<times> error option" where
  "logGetByIDHandler_Parse d h r =
     (let catcher = [];
          h = h\<lparr>logGetByIDHandler.id := Vars r ''id''\<rparr>;
          vals = Query r;
          h = h\<lparr>logGetByIDHandler.printTime := (Values_Get vals printTime_param = trueString)\<rparr>;
          h = h\<lparr>logGetByIDHandler.printPriority := (Values_Get vals printPriority_param = trueString)\<rparr>;
          h = h\<lparr>logGetByIDHandler.paginate := (Values_Get vals paginate_param = trueString)\<rparr>;
          (t, err) = parseTimeRange d vals logStartAt logEndAt;
          h = h\<lparr>logGetByIDHandler.tr := t\<rparr>;
          catcher = catcher_Add catcher err;
          (h, catcher) =
            (case vals limit_param of
               [] \<Rightarrow> (h, catcher)
             | v # _ \<Rightarrow> (case Atoi v of (i, err) \<Rightarrow>
                          (h\<lparr>logGetByIDHandler.limit := i\<rparr>, catcher_Add catcher err)))
      in (h, catcher_Resolve catcher))"

text \<open>The options \<open>Run\<close> builds before it calls the connector (lines 80 to 89).\<close>

definition logGetByIDHandler_options :: "'s logGetByIDHandler \<Rightarrow> BuildloggerOptions" where
  "logGetByIDHandler_options h =
     (let opts = zeroOptions\<lparr>ID := logGetByIDHandler.id h,
                             TimeRange := logGetByIDHandler.tr h,
                             PrintTime := logGetByIDHandler.printTime h,
                             PrintPriority := logGetByIDHandler.printPriority h,
                             Limit := logGetByIDHandler.limit h\<rparr>
      in if logGetByIDHandler.paginate h \<and> Limit opts \<le> 0
         then opts\<lparr>SoftSizeLimit := softSizeLimit\<rparr> else opts)"

definition logGetByIDHandler_Run ::
  "Deps \<Rightarrow> 's logGetByIDHandler \<Rightarrow> 's World \<Rightarrow> Responder \<times> 's World" where
  "logGetByIDHandler_Run d h w =
     (let opts = logGetByIDHandler_options h
      in (case call_FindLogByID (logGetByIDHandler.sc h) opts w of
            ((data, nextT, paginated, Some err), w1) \<Rightarrow>
              (MakeJSONErrorResponder
                 (Wrapf err (''Error getting log by id '' @ quoted (logGetByIDHandler.id h))), w1)
          | ((data, nextT, paginated, None), w1) \<Rightarrow>
              (newBuildloggerResponder d data (StartAt (logGetByIDHandler.tr h)) nextT paginated, w1)))"

subsection \<open>GET /buildlogger/task\_id/{task\_id}\<close>

record 's logGetByTaskIDHandler =
  id :: string
  procName :: string
  execution :: int
  tags :: "string list"
  tr :: TimeRange
  printTime :: bool
  printPriority :: bool
  paginate :: bool
  n :: int
  limit :: int
  sc :: "'s Connector"

definition makeGetLogByTaskID :: "'s Connector \<Rightarrow> 's logGetByTaskIDHandler" where
  "makeGetLogByTaskID c =
     \<lparr>logGetByTaskIDHandler.id = [], logGetByTaskIDHandler.procName = [],
      logGetByTaskIDHandler.execution = 0, logGetByTaskIDHandler.tags = [],
      logGetByTaskIDHandler.tr = zeroTimeRange,
      logGetByTaskIDHandler.printTime = False, logGetByTaskIDHandler.printPriority = False,
      logGetByTaskIDHandler.paginate = False, logGetByTaskIDHandler.n = 0,
      logGetByTaskIDHandler.limit = 0,
      logGetByTaskIDHandler.sc = c\<rparr>"

definition logGetByTaskIDHandler_Factory ::
  "'s logGetByTaskIDHandler \<Rightarrow> 's logGetByTaskIDHandler" where
  "logGetByTaskIDHandler_Factory h = makeGetLogByTaskID (logGetByTaskIDHandler.sc h)"

definition logGetByTaskIDHandler_Parse ::
  "Deps \<Rightarrow> 's logGetByTaskIDHandler \<Rightarrow> Request \<Rightarrow> 's logGetByTaskIDHandler \<times> error option" where
  "logGetByTaskIDHandler_Parse d h r =
     (let catcher = [];
          h = h\<lparr>logGetByTaskIDHandler.id := Vars r ''task_id''\<rparr>;
          vals = Query r;
          h = h\<lparr>logGetByTaskIDHandler.procName := Values_Get vals procName_param\<rparr>;
          h = h\<lparr>logGetByTaskIDHandler.tags := vals tags_param\<rparr>;
          h = h\<lparr>logGetByTaskIDHandler.printTime := (Values_Get vals printTime_param = trueString)\<rparr>;
          h = h\<lparr>logGetByTaskIDHandler.printPriority := (Values_Get vals printPriority_param = trueString)\<rparr>;
          h = h\<lparr>logGetByTaskIDHandler.paginate := (Values_Get vals paginate_param = trueString)\<rparr>;
          (t, err) = parseTimeRange d vals logStartAt logEndAt;
          h = h\<lparr>logGetByTaskIDHandler.tr := t\<rparr>;
          catcher = catcher_Add catcher err;
          (h, catcher) =
            (case vals execution_param of
               [] \<Rightarrow> (h, catcher)
             | v # _ \<Rightarrow> (case Atoi v of (i, err) \<Rightarrow>
                          (h\<lparr>logGetByTaskIDHandler.execution := i\<rparr>, catcher_Add catcher err)));
          (h, catcher) =
            (case vals limit_param of
               [] \<Rightarrow> (h, catcher)
             | v # _ \<Rightarrow> (case Atoi v of (i, err) \<Rightarrow>
                          (h\<lparr>logGetByTaskIDHandler.limit := i\<rparr>, catcher_Add catcher err)));
          (h, catcher) =
            (case vals ''n'' of
               [] \<Rightarrow> (h, catcher)
             | v # _ \<Rightarrow> (case Atoi v of (i, err) \<Rightarrow>
                          (h\<lparr>logGetByTaskIDHandler.n := i\<rparr>, catcher_Add catcher err)))
      in (h, catcher_Resolve catcher))"

text \<open>The options \<open>Run\<close> builds before it calls the connector (lines 199 to 212).\<close>

definition logGetByTaskIDHandler_options :: "'s logGetByTaskIDHandler \<Rightarrow> BuildloggerOptions" where
  "logGetByTaskIDHandler_options h =
     (let opts = zeroOptions\<lparr>TaskID := logGetByTaskIDHandler.id h,
                             Execution := logGetByTaskIDHandler.execution h,
                             ProcessName := logGetByTaskIDHandler.procName h,
                             Tags := logGetByTaskIDHandler.tags h,
                             TimeRange := logGetByTaskIDHandler.tr h,
                             PrintTime := logGetByTaskIDHandler.printTime h,
                             PrintPriority := logGetByTaskIDHandler.printPriority h,
                             Limit := logGetByTaskIDHandler.limit h,
                             Tail := logGetByTaskIDHandler.n h\<rparr>
      in if logGetByTaskIDHandler.paginate h \<and> Limit opts \<le> 0 \<and> Tail opts \<le> 0
         then opts\<lparr>SoftSizeLimit := softSizeLimit\<rparr> else opts)"

definition logGetByTaskIDHandler_Run ::
  "Deps \<Rightarrow> 's logGetByTaskIDHandler \<Rightarrow> 's World \<Rightarrow> Responder \<times> 's World" where
  "logGetByTaskIDHandler_Run d h w =
     (let opts = logGetByTaskIDHandler_options h
      in (case call_FindLogsByTaskID (logGetByTaskIDHandler.sc h) opts w of
            ((data, nextT, paginated, Some err), w1) \<Rightarrow>
              (MakeJSONErrorResponder
                 (Wrapf err (''Error getting logs by task id '' @ quoted (logGetByTaskIDHandler.id h))), w1)
          | ((data, nextT, paginated, None), w1) \<Rightarrow>
              (newBuildloggerResponder d data (StartAt (logGetByTaskIDHandler.tr h)) nextT paginated, w1)))"

subsection \<open>GET /buildlogger/test\_name/{task\_id}/{test\_name}\<close>

record 's logGetByTestNameHandler =
  id :: string
  name :: string
  tags :: "string list"
  tr :: TimeRange
  printTime :: bool
  printPriority :: bool
  paginate :: bool
  limit :: int
  sc :: "'s Connector"

definition makeGetLogByTestName :: "'s Connector \<Rightarrow> 's logGetByTestNameHandler" where
  "makeGetLogByTestName c =
     \<lparr>logGetByTestNameHandler.id = [], logGetByTestNameHandler.name = [],
      logGetByTestNameHandler.tags = [], logGetByTestNameHandler.tr = zeroTimeRange,
      logGetByTestNameHandler.printTime = False, logGetByTestNameHandler.printPriority = False,
      logGetByTestNameHandler.paginate = False, logGetByTestNameHandler.limit = 0,
      logGetByTestNameHandler.sc = c\<rparr>"

definition logGetByTestNameHandler_Factory ::
  "'s logGetByTestNameHandler \<Rightarrow> 's logGetByTestNameHandler" where
  "logGetByTestNameHandler_Factory h = makeGetLogByTestName (logGetByTestNameHandler.sc h)"

definition logGetByTestNameHandler_Parse ::
  "Deps \<Rightarrow> 's logGetByTestNameHandler \<Rightarrow> Request \<Rightarrow> 's logGetByTestNameHandler \<times> error option" where
  "logGetByTestNameHandler_Parse d h r =
     (let catcher = [];
          h = h\<lparr>logGetByTestNameHandler.id := Vars r ''task_id''\<rparr>;
          h = h\<lparr>logGetByTestNameHandler.name := Vars r ''test_name''\<rparr>;
          vals = Query r;
          h = h\<lparr>logGetByTestNameHandler.tags := vals tags_param\<rparr>;
          h = h\<lparr>logGetByTestNameHandler.printTime := (Values_Get vals printTime_param = trueString)\<rparr>;
          h = h\<lparr>logGetByTestNameHandler.printPriority := (Values_Get vals printPriority_param = trueString)\<rparr>;
          h = h\<lparr>logGetByTestNameHandler.paginate := (Values_Get vals paginate_param = trueString)\<rparr>;
          (t, err) = parseTimeRange d vals logStartAt logEndAt;
          h = h\<lparr>logGetByTestNameHandler.tr := t\<rparr>;
          catcher = catcher_Add catcher err;
          (h, catcher) =
            (case vals limit_param of
               [] \<Rightarrow> (h, catcher)
             | v # _ \<Rightarrow> (case Atoi v of (i, err) \<Rightarrow>
                          (h\<lparr>logGetByTestNameHandler.limit := i\<rparr>, catcher_Add catcher err)))
      in (h, catcher_Resolve catcher))"

text \<open>The options \<open>Run\<close> builds before it calls the connector (lines 320 to 331).\<close>

definition logGetByTestNameHandler_options :: "'s logGetByTestNameHandler \<Rightarrow> BuildloggerOptions" where
  "logGetByTestNameHandler_options h =
     (let opts = zeroOptions\<lparr>TaskID := logGetByTestNameHandler.id h,
                             TestName := logGetByTestNameHandler.name h,
                             Tags := logGetByTestNameHandler.tags h,
                             TimeRange := logGetByTestNameHandler.tr h,
                             PrintTime := logGetByTestNameHandler.printTime h,
                             PrintPriority := logGetByTestNameHandler.printPriority h,
                             Limit := logGetByTestNameHandler.limit h\<rparr>
      in if logGetByTestNameHandler.paginate h \<and> Limit opts \<le> 0
         then opts\<lparr>SoftSizeLimit := softSizeLimit\<rparr> else opts)"

definition logGetByTestNameHandler_Run ::
  "Deps \<Rightarrow> 's logGetByTestNameHandler \<Rightarrow> 's World \<Rightarrow> Responder \<times> 's World" where
  "logGetByTestNameHandler_Run d h w =
     (let opts = logGetByTestNameHandler_options h
      in (case call_FindLogsByTestName (logGetByTestNameHandler.sc h) opts w of
            ((data, nextT, paginated, Some err), w1) \<Rightarrow>
              (MakeJSONErrorResponder
                 (Wrapf err (''Error getting logs by test name '' @ quoted (logGetByTestNameHandler.name h))), w1)
          | ((data, nextT, paginated, None), w1) \<Rightarrow>
              (newBuildloggerResponder d data (StartAt (logGetByTestNameHandler.tr h)) nextT paginated, w1)))"

subsection \<open>GET /buildlogger/test\_name/{task\_id}/{test\_name}/meta\<close>

record 's logMetaGetByTestNameHandler =
  id :: string
  name :: string
  tags :: "string list"
  sc :: "'s Connector"

definition makeGetLogMetaByTestName :: "'s Connector \<Rightarrow> 's logMetaGetByTestNameHandler" where
  "makeGetLogMetaByTestName c =
     \<lparr>logMetaGetByTestNameHandler.id = [], logMetaGetByTestNameHandler.name = [],
      logMetaGetByTestNameHandler.tags = [], logMetaGetByTestNameHandler.sc = c\<rparr>"

definition logMetaGetByTestNameHandler_Factory ::
  "'s logMetaGetByTestNameHandler \<Rightarrow> 's logMetaGetByTestNameHandler" where
  "logMetaGetByTestNameHandler_Factory h =
     makeGetLogMetaByTestName (logMetaGetByTestNameHandler.sc h)"

definition logMetaGetByTestNameHandler_Parse ::
  "'s logMetaGetByTestNameHandler \<Rightarrow> Request \<Rightarrow> 's logMetaGetByTestNameHandler \<times> error option" where
  "logMetaGetByTestNameHandler_Parse h r =
     (let h = h\<lparr>logMetaGetByTestNameHandler.id := Vars r ''task_id''\<rparr>;
          h = h\<lparr>logMetaGetByTestNameHandler.name := Vars r ''test_name''\<rparr>;
          vals = Query r;
          h = h\<lparr>logMetaGetByTestNameHandler.tags := vals tags_param\<rparr>
      in (h, None))"

text \<open>
  The type assertion \<open>err.(gimlet.ErrorResponse)\<close>: the asserted value and whether the
  error, as it is (not what it wraps), is an \<open>ErrorResponse\<close>; the zero value otherwise.
\<close>

fun asErrorResponse :: "error option \<Rightarrow> (int \<times> string) \<times> bool" where
  "asErrorResponse (Some (ErrorResponse code msg)) = ((code, msg), True)"
| "asErrorResponse e = ((0, []), False)"

definition logMetaGetByTestNameHandler_Run ::
  "'s logMetaGetByTestNameHandler \<Rightarrow> 's World \<Rightarrow> Responder \<times> 's World" where
  "logMetaGetByTestNameHandler_Run h w =
     (let opts = zeroOptions\<lparr>TaskID := logMetaGetByTestNameHandler.id h,
                             TestName := logMetaGetByTestNameHandler.name h,
                             Tags := logMetaGetByTestNameHandler.tags h\<rparr>
      in (case call_FindLogMetadataByTestName (logMetaGetByTestNameHandler.sc h) opts w of
            ((testLogs, Some err), w1) \<Rightarrow>
              (MakeJSONErrorResponder
                 (Wrapf err (''Error getting log metadata by test name ''
                             @ quoted (logMetaGetByTestNameHandler.name h))), w1)
          | ((testLogs, None), w1) \<Rightarrow>
              (let opts = opts\<lparr>TestName := []\<rparr>
               in (case call_FindLogMetadataByTestName (logMetaGetByTestNameHandler.sc h) opts w1 of
                     ((globalLogs, err), w2) \<Rightarrow>
                       (case asErrorResponse err of
                          (errResp, ok) \<Rightarrow>
                            if err \<noteq> None \<and> (\<not> ok \<or> fst errResp = StatusNotFound)
                            then (MakeJSONErrorResponder
                                    (Wrapf (the err) (''Error getting log metadata by test name ''
                                                      @ quoted (logMetaGetByTestNameHandler.name h))), w2)
                            else (NewJSONResponse (testLogs @ globalLogs), w2))))))"

subsection \<open>GET /buildlogger/test\_name/{task\_id}/{test\_name}/group/{group\_id}\<close>

record 's logGroupHandler =
  id :: string
  name :: string
  groupID :: string
  tags :: "string list"
  tr :: TimeRange
  printTime :: bool
  printPriority :: bool
  paginate :: bool
  limit :: int
  sc :: "'s Connector"

definition makeGetLogGroup :: "'s Connector \<Rightarrow> 's logGroupHandler" where
  "makeGetLogGroup c =
     \<lparr>logGroupHandler.id = [], logGroupHandler.name = [], logGroupHandler.groupID = [],
      logGroupHandler.tags = [], logGroupHandler.tr = zeroTimeRange,
      logGroupHandler.printTime = False, logGroupHandler.printPriority = False,
      logGroupHandler.paginate = False, logGroupHandler.limit = 0,
      logGroupHandler.sc = c\<rparr>"

definition logGroupHandler_Factory :: "'s logGroupHandler \<Rightarrow> 's logGroupHandler" where
  "logGroupHandler_Factory h = makeGetLogGroup (logGroupHandler.sc h)"

definition logGroupHandler_Parse ::
  "Deps \<Rightarrow> 's logGroupHandler \<Rightarrow> Request \<Rightarrow> 's logGroupHandler \<times> error option" where
  "logGroupHandler_Parse d h r =
     (let catcher = [];
          h = h\<lparr>logGroupHandler.id := Vars r ''task_id''\<rparr>;
          h = h\<lparr>logGroupHandler.name := Vars r ''test_name''\<rparr>;
          h = h\<lparr>logGroupHandler.groupID := Vars r ''group_id''\<rparr>;
          vals = Query r;
          h = h\<lparr>logGroupHandler.tags := vals tags_param\<rparr>;
          h = h\<lparr>logGroupHandler.printTime := (Values_Get vals printTime_param = trueString)\<rparr>;
          h = h\<lparr>logGroupHandler.printPriority := (Values_Get vals printPriority_param = trueString)\<rparr>;
          h = h\<lparr>logGroupHandler.paginate := (Values_Get vals paginate_param = trueString)\<rparr>;
          (h, catcher) =
            (if Values_Get vals logStartAt \<noteq> [] \<or> Values_Get vals logEndAt \<noteq> []
             then (case parseTimeRange d vals logStartAt logEndAt of
                     (t, err) \<Rightarrow> (h\<lparr>logGroupHandler.tr := t\<rparr>, catcher_Add catcher err))
             else (h, catcher));
          (h, catcher) =
            (case vals limit_param of
               [] \<Rightarrow> (h, catcher)
             | v # _ \<Rightarrow> (case Atoi v of (i, err) \<Rightarrow>
                          (h\<lparr>logGroupHandler.limit := i\<rparr>, catcher_Add catcher err)))
      in (h, catcher_Resolve catcher))"

text \<open>The options \<open>Run\<close> builds first (lines 452 to 463).\<close>

definition logGroupHandler_options :: "'s logGroupHandler \<Rightarrow> BuildloggerOptions" where
  "logGroupHandler_options h =
     (let opts = zeroOptions\<lparr>TaskID := logGroupHandler.id h,
                             TestName := logGroupHandler.name h,
                             Tags := logGroupHandler.tags h @ [logGroupHandler.groupID h],
                             TimeRange := logGroupHandler.tr h,
                             PrintTime := logGroupHandler.printTime h,
                             PrintPriority := logGroupHandler.printPriority h,
                             Limit := logGroupHandler.limit h\<rparr>
      in if logGroupHandler.paginate h \<and> Limit opts \<le> 0
         then opts\<lparr>SoftSizeLimit := softSizeLimit\<rparr> else opts)"

text \<open>
  The loop over the metadata entries (lines 470 to 477); it reads and writes the time
  range of the options and nothing else of them.
\<close>

fun inferTimeRange :: "TimeRange \<Rightarrow> APILog list \<Rightarrow> TimeRange" where
  "inferTimeRange t [] = t"
| "inferTimeRange t (log # logs) =
     (let t = (if Time_After (StartAt t) (CreatedAt log) \<or> Time_IsZero (StartAt t)
               then t\<lparr>StartAt := CreatedAt log\<rparr> else t);
          t = (if Time_Before (EndAt t) (CompletedAt log)
               then t\<lparr>EndAt := CompletedAt log\<rparr> else t)
      in inferTimeRange t logs)"

text \<open>The end of \<open>Run\<close>, from the call of \<open>FindGroupedLogs\<close> (lines 480 to 486).\<close>

definition logGroupHandler_Run_find ::
  "Deps \<Rightarrow> 's logGroupHandler \<Rightarrow> BuildloggerOptions \<Rightarrow> 's World \<Rightarrow> Responder \<times> 's World" where
  "logGroupHandler_Run_find d h opts w =
     (case call_FindGroupedLogs (logGroupHandler.sc h) opts w of
        ((data, nextT, paginated, Some err), w1) \<Rightarrow>
          (MakeJSONErrorResponder
             (Wrapf err (''Error getting grouped logs with task_id/test_name/group_id ''
                         @ quoted (logGroupHandler.id h @ ''/'' @ logGroupHandler.name h
                                   @ ''/'' @ logGroupHandler.groupID h))), w1)
      | ((data, nextT, paginated, None), w1) \<Rightarrow>
          (newBuildloggerResponder d data (StartAt (logGroupHandler.tr h)) nextT paginated, w1))"

definition logGroupHandler_Run ::
  "Deps \<Rightarrow> 's logGroupHandler \<Rightarrow> 's World \<Rightarrow> Responder \<times> 's World" where
  "logGroupHandler_Run d h w =
     (let opts = logGroupHandler_options h
      in if TimeRange_IsZero (TimeRange opts)
         then (case call_FindLogMetadataByTestName (logGroupHandler.sc h) opts w of
                 ((testLogs, Some err), w1) \<Rightarrow>
                   (MakeJSONErrorResponder
                      (Wrapf err (''Error getting log metadata by test name ''
                                  @ quoted (logGroupHandler.name h))), w1)
               | ((testLogs, None), w1) \<Rightarrow>
                   logGroupHandler_Run_find d h
                     (opts\<lparr>TimeRange := inferTimeRange (TimeRange opts) testLogs\<rparr>) w1)
         else logGroupHandler_Run_find d h opts w)"

subsection \<open>Sample values\<close>

text \<open>
  Metadata entries used where a theorem is evaluated: \<open>logA\<close> has no creation instant
  (the zero instant), \<open>logC\<close> lies wholly before the zero instant.
\<close>

definition logA :: APILog where
  "logA = \<lparr>LogID = ''a'', CreatedAt = 0, CompletedAt = 20\<rparr>"

definition logB :: APILog where
  "logB = \<lparr>LogID = ''b'', CreatedAt = 10, CompletedAt = 30\<rparr>"

definition logC :: APILog where
  "logC = \<lparr>LogID = ''c'', CreatedAt = - 10, CompletedAt = - 5\<rparr>"

definition logD :: APILog where
  "logD = \<lparr>LogID = ''d'', CreatedAt = 5, CompletedAt = 40\<rparr>"

text \<open>
  Stand-ins for the dependencies: a \<open>parseTimeRange\<close> that reads the two bounds as
  decimal instants (an absent bound is the zero instant) and reports one error when
  either is malformed, a formatter, and a \<open>SetPages\<close> that accepts every page.
\<close>

definition sample_parseBound :: "string \<Rightarrow> int \<times> error option" where
  "sample_parseBound s = (if s = [] then (0, None) else Atoi s)"

definition sample_parseTimeRange :: "Values \<Rightarrow> string \<Rightarrow> string \<Rightarrow> TimeRange \<times> error option" where
  "sample_parseTimeRange vals s e =
     (case (sample_parseBound (Values_Get vals s), sample_parseBound (Values_Get vals e)) of
        ((a, None), (b, None)) \<Rightarrow> (\<lparr>StartAt = a, EndAt = b\<rparr>, None)
      | _ \<Rightarrow> (zeroTimeRange, Some (OtherError ''problem parsing time range'')))"

definition sample_Format :: "Time \<Rightarrow> string" where
  "sample_Format t = (if t = 0 then ''0001-01-01T00:00:00Z'' else ''later'')"

definition sampleDeps :: Deps where
  "sampleDeps = \<lparr>parseTimeRange = sample_parseTimeRange, Format_RFC3339 = sample_Format,
                 SetPages = (\<lambda>p. None)\<rparr>"

text \<open>
  Connectors over a store that counts the calls: one that always answers, one whose
  metadata fetch finds nothing without a test name, one whose metadata fetch fails
  without a test name.
\<close>

definition sampleLogResult :: LogResult where
  "sampleLogResult = (''log lines'', 77, True, None)"

definition sampleConnector :: "nat Connector" where
  "sampleConnector =
     \<lparr>FindLogByID = (\<lambda>opts s. (sampleLogResult, Suc s)),
      FindLogsByTaskID = (\<lambda>opts s. (sampleLogResult, Suc s)),
      FindLogsByTestName = (\<lambda>opts s. (sampleLogResult, Suc s)),
      FindGroupedLogs = (\<lambda>opts s. (sampleLogResult, Suc s)),
      FindLogMetadataByTestName = (\<lambda>opts s. (([logB, logD], None), Suc s))\<rparr>"

definition notFoundConnector :: "nat Connector" where
  "notFoundConnector =
     sampleConnector\<lparr>FindLogMetadataByTestName :=
       (\<lambda>opts s. if TestName opts = []
                  then (([], Some (ErrorResponse 404 ''not found'')), Suc s)
                  else (([logB], None), Suc s))\<rparr>"

definition serverErrorConnector :: "nat Connector" where
  "serverErrorConnector =
     sampleConnector\<lparr>FindLogMetadataByTestName :=
       (\<lambda>opts s. if TestName opts = []
                  then (([], Some (ErrorResponse 500 ''store is down'')), Suc s)
                  else (([logB], None), Suc s))\<rparr>"

definition sampleWorld :: "nat World" where
  "sampleWorld = \<lparr>store = 0, calls = []\<rparr>"

text \<open>
  Requests: the path variables, and the query strings
  \<open>?tags=a&tags=b&paginate=true\<close>, \<open>?limit=5&n=3&paginate=true\<close>,
  \<open>?start=yesterday&execution=x&limit=1.5&n=abc\<close> and \<open>?limit=5&limit=abc&limit=7\<close>.
\<close>

definition sampleVars :: "string \<Rightarrow> string" where
  "sampleVars = (\<lambda>k. [])(''id'' := ''L1'', ''task_id'' := ''T1'',
                            ''test_name'' := ''test1'', ''group_id'' := ''G1'')"

definition paginateRequest :: Request where
  "paginateRequest =
     \<lparr>Vars = sampleVars,
      Query = (\<lambda>k. [])(''tags'' := [''a'', ''b''], ''paginate'' := [''true''])\<rparr>"

definition limitAndTailRequest :: Request where
  "limitAndTailRequest =
     \<lparr>Vars = sampleVars,
      Query = (\<lambda>k. [])(''limit'' := [''5''], ''n'' := [''3''], ''paginate'' := [''true''])\<rparr>"


definition repeatedRequest :: Request where
  "repeatedRequest =
     \<lparr>Vars = sampleVars, Query = (\<lambda>k. [])(''limit'' := [''5'', ''abc'', ''7''])\<rparr>"


definition firstMalformedRequest :: Request where
  "firstMalformedRequest =
     \<lparr>Vars = sampleVars, Query = (\<lambda>k. [])(''limit'' := [''abc'', ''5''])\<rparr>"

definition boundedRequest :: Request where
  "boundedRequest =
     \<lparr>Vars = sampleVars, Query = (\<lambda>k. [])(''start'' := [''7''], ''end'' := [''9''])\<rparr>"

text \<open>
  A connector whose metadata fetch fails, one whose metadata fetch finds no entry, and
  dependencies whose \<open>SetPages\<close> refuses every page.
\<close>

definition failingMetaConnector :: "nat Connector" where
  "failingMetaConnector =
     sampleConnector\<lparr>FindLogMetadataByTestName :=
       (\<lambda>opts s. (([], Some (OtherError ''store is down'')), Suc s))\<rparr>"

definition emptyMetaConnector :: "nat Connector" where
  "emptyMetaConnector =
     sampleConnector\<lparr>FindLogMetadataByTestName := (\<lambda>opts s. (([], None), Suc s))\<rparr>"

definition refusingDeps :: Deps where
  "refusingDeps = sampleDeps\<lparr>SetPages := (\<lambda>p. Some (OtherError ''invalid page''))\<rparr>"

subsection \<open>The spec's words for the options\<close>

text \<open>
  The retrieval modes of the spec, read off the options a handler passes to the store:
  a mode is active when its field is positive.
\<close>

definition activeModes :: "BuildloggerOptions \<Rightarrow> string list" where
  "activeModes opts =
     (if 0 < Limit opts then [''ExplicitLimit''] else [])
     @ (if 0 < Tail opts then [''Tail''] else [])
     @ (if 0 < SoftSizeLimit opts then [''SoftSizeLimit''] else [])"

text \<open>
  Every call of a list passes the soft size limit \<open>x\<close>, and the list holds a call.
\<close>

definition passSoftSizeLimit :: "StoreCall list \<Rightarrow> int \<Rightarrow> bool" where
  "passSoftSizeLimit cs x = (cs \<noteq> [] \<and> (\<forall>c\<in>set cs. SoftSizeLimit (callOpts c) = x))"

text \<open>
  A numeric parameter taken alone: the error of \<open>Atoi\<close> on its first value, none when
  the parameter is absent.
\<close>

definition fieldError :: "Values \<Rightarrow> string \<Rightarrow> error option" where
  "fieldError vals key = (case vals key of [] \<Rightarrow> None | v # _ \<Rightarrow> snd (Atoi v))"

section \<open>Properties\<close>

lemmas sample_defs = sampleConnector_def notFoundConnector_def serverErrorConnector_def
  failingMetaConnector_def emptyMetaConnector_def
  sampleWorld_def sampleLogResult_def sampleDeps_def refusingDeps_def sampleVars_def
  sample_parseTimeRange_def sample_parseBound_def sample_Format_def

lemmas Atoi_defs = Atoi_def ParseInt_def ParseUint_def isDigit_def digitVal_def maxUint64_def

lemmas param_defs = logStartAt_def logEndAt_def execution_param_def procName_param_def
  tags_param_def printTime_param_def printPriority_param_def limit_param_def
  paginate_param_def trueString_def

subsection \<open>The metadata of a test and the global metadata\<close>

text \<open>
  What \<open>Run\<close> answers once the fetch for the test has succeeded, by the outcome of the
  global fetch: an \<open>ErrorResponse\<close> fails the call when its status is 404 and is
  dropped otherwise; every other error fails the call.
\<close>

lemma logMetaGetByTestNameHandler_Run_global:
  assumes "FindLogMetadataByTestName (logMetaGetByTestNameHandler.sc h)
             (zeroOptions\<lparr>TaskID := logMetaGetByTestNameHandler.id h,
                          TestName := logMetaGetByTestNameHandler.name h,
                          Tags := logMetaGetByTestNameHandler.tags h\<rparr>) (store w)
           = ((testLogs, None), s1)"
    and "FindLogMetadataByTestName (logMetaGetByTestNameHandler.sc h)
             (zeroOptions\<lparr>TaskID := logMetaGetByTestNameHandler.id h,
                          TestName := [],
                          Tags := logMetaGetByTestNameHandler.tags h\<rparr>) s1
           = ((globalLogs, err), s2)"
  shows "fst (logMetaGetByTestNameHandler_Run h w) =
           (case err of
              None \<Rightarrow> NewJSONResponse (testLogs @ globalLogs)
            | Some (ErrorResponse code msg) \<Rightarrow>
                if code = StatusNotFound
                then MakeJSONErrorResponder
                       (Wrapf (ErrorResponse code msg)
                          (''Error getting log metadata by test name ''
                           @ quoted (logMetaGetByTestNameHandler.name h)))
                else NewJSONResponse (testLogs @ globalLogs)
            | Some e \<Rightarrow> MakeJSONErrorResponder
                       (Wrapf e (''Error getting log metadata by test name ''
                                 @ quoted (logMetaGetByTestNameHandler.name h))))"
  using assms
  by (simp add: logMetaGetByTestNameHandler_Run_def call_FindLogMetadataByTestName_def Let_def
      zeroOptions_def split: option.splits error.splits)

text \<open>
  C1, at a request for the metadata of test \<open>test1\<close> of task \<open>T1\<close>. The fetch for the
  test returns \<open>[logB]\<close>. When the global fetch returns a not-found \<open>ErrorResponse\<close>
  the call fails with that error, where C1 says it returns \<open>[logB]\<close>; when the global
  fetch returns an \<open>ErrorResponse\<close> with status 500 the call returns \<open>[logB]\<close>, where
  C1 says it fails.
\<close>

theorem C1_global_not_found_fails:
  "fst (logMetaGetByTestNameHandler_Run
          (fst (logMetaGetByTestNameHandler_Parse
                  (makeGetLogMetaByTestName notFoundConnector) paginateRequest)) sampleWorld)
     = MakeJSONErrorResponder
         (Wrapf (ErrorResponse 404 ''not found'')
                (''Error getting log metadata by test name '' @ quoted ''test1''))
   \<and> fst (logMetaGetByTestNameHandler_Run
          (fst (logMetaGetByTestNameHandler_Parse
                  (makeGetLogMetaByTestName serverErrorConnector) paginateRequest)) sampleWorld)
     = NewJSONResponse [logB]"
  by (simp add: logMetaGetByTestNameHandler_Run_def logMetaGetByTestNameHandler_Parse_def
      makeGetLogMetaByTestName_def call_FindLogMetadataByTestName_def paginateRequest_def
      sample_defs zeroOptions_def StatusNotFound_def Let_def)

theorem C1_global_not_found_fails_witness:
  "(\<exists>e. fst (logMetaGetByTestNameHandler_Run
                 (fst (logMetaGetByTestNameHandler_Parse
                         (makeGetLogMetaByTestName notFoundConnector) paginateRequest)) sampleWorld)
          = MakeJSONErrorResponder e)
   \<and> (\<exists>logs. fst (logMetaGetByTestNameHandler_Run
                 (fst (logMetaGetByTestNameHandler_Parse
                         (makeGetLogMetaByTestName serverErrorConnector) paginateRequest)) sampleWorld)
          = NewJSONResponse logs)"
proof -
  note th = C1_global_not_found_fails
  from th have a: "\<exists>e. fst (logMetaGetByTestNameHandler_Run
                 (fst (logMetaGetByTestNameHandler_Parse
                         (makeGetLogMetaByTestName notFoundConnector) paginateRequest)) sampleWorld)
          = MakeJSONErrorResponder e"
    by blast
  from th have b: "\<exists>logs. fst (logMetaGetByTestNameHandler_Run
                 (fst (logMetaGetByTestNameHandler_Parse
                         (makeGetLogMetaByTestName serverErrorConnector) paginateRequest)) sampleWorld)
          = NewJSONResponse logs"
    by blast
  from a b show ?thesis by (rule conjI)
qed

subsection \<open>The connector calls a handler makes\<close>

lemma logGetByIDHandler_Run_calls:
  "newCalls w (snd (logGetByIDHandler_Run d h w))
   = [Call_FindLogByID (logGetByIDHandler_options h)]"
  by (simp add: logGetByIDHandler_Run_def call_FindLogByID_def newCalls_def Let_def
      split: prod.splits option.splits)

lemma logGetByTaskIDHandler_Run_calls:
  "newCalls w (snd (logGetByTaskIDHandler_Run d h w))
   = [Call_FindLogsByTaskID (logGetByTaskIDHandler_options h)]"
  by (simp add: logGetByTaskIDHandler_Run_def call_FindLogsByTaskID_def newCalls_def Let_def
      split: prod.splits option.splits)

lemma logGetByTestNameHandler_Run_calls:
  "newCalls w (snd (logGetByTestNameHandler_Run d h w))
   = [Call_FindLogsByTestName (logGetByTestNameHandler_options h)]"
  by (simp add: logGetByTestNameHandler_Run_def call_FindLogsByTestName_def newCalls_def Let_def
      split: prod.splits option.splits)

lemma logGroupHandler_options_TimeRange:
  "TimeRange (logGroupHandler_options h) = logGroupHandler.tr h"
  by (simp add: logGroupHandler_options_def Let_def)

lemma logGroupHandler_Run_find_calls:
  "calls (snd (logGroupHandler_Run_find d h opts w)) = calls w @ [Call_FindGroupedLogs opts]"
  by (simp add: logGroupHandler_Run_find_def call_FindGroupedLogs_def
      split: prod.splits option.splits)

text \<open>
  The group handler asks for the metadata first when its range is zero, and for the
  grouped logs unless that metadata fetch failed.
\<close>

lemma logGroupHandler_Run_calls:
  "newCalls w (snd (logGroupHandler_Run d h w)) =
     (if TimeRange_IsZero (logGroupHandler.tr h)
      then (case FindLogMetadataByTestName (logGroupHandler.sc h)
                  (logGroupHandler_options h) (store w) of
              ((testLogs, Some err), s) \<Rightarrow>
                [Call_FindLogMetadataByTestName (logGroupHandler_options h)]
            | ((testLogs, None), s) \<Rightarrow>
                [Call_FindLogMetadataByTestName (logGroupHandler_options h),
                 Call_FindGroupedLogs
                   ((logGroupHandler_options h)
                      \<lparr>TimeRange := inferTimeRange (logGroupHandler.tr h) testLogs\<rparr>)])
      else [Call_FindGroupedLogs (logGroupHandler_options h)])"
  by (simp add: logGroupHandler_Run_def logGroupHandler_Run_find_calls
      logGroupHandler_options_TimeRange call_FindLogMetadataByTestName_def newCalls_def Let_def
      split: prod.splits option.splits)

subsection \<open>What \<open>Parse\<close> stores\<close>

lemma logGetByIDHandler_Parse_fields:
  "logGetByIDHandler.paginate (fst (logGetByIDHandler_Parse d h r))
     = (Values_Get (Query r) paginate_param = trueString)"
  "logGetByIDHandler.limit (fst (logGetByIDHandler_Parse d h r))
     = (case Query r limit_param of [] \<Rightarrow> logGetByIDHandler.limit h | v # _ \<Rightarrow> fst (Atoi v))"
  "logGetByIDHandler.tr (fst (logGetByIDHandler_Parse d h r))
     = fst (parseTimeRange d (Query r) logStartAt logEndAt)"
  "logGetByIDHandler.sc (fst (logGetByIDHandler_Parse d h r)) = logGetByIDHandler.sc h"
  by (simp_all add: logGetByIDHandler_Parse_def Let_def split: prod.splits list.splits)

lemma logGetByTaskIDHandler_Parse_fields:
  "logGetByTaskIDHandler.paginate (fst (logGetByTaskIDHandler_Parse d h r))
     = (Values_Get (Query r) paginate_param = trueString)"
  "logGetByTaskIDHandler.limit (fst (logGetByTaskIDHandler_Parse d h r))
     = (case Query r limit_param of [] \<Rightarrow> logGetByTaskIDHandler.limit h | v # _ \<Rightarrow> fst (Atoi v))"
  "logGetByTaskIDHandler.n (fst (logGetByTaskIDHandler_Parse d h r))
     = (case Query r ''n'' of [] \<Rightarrow> logGetByTaskIDHandler.n h | v # _ \<Rightarrow> fst (Atoi v))"
  "logGetByTaskIDHandler.execution (fst (logGetByTaskIDHandler_Parse d h r))
     = (case Query r execution_param of [] \<Rightarrow> logGetByTaskIDHandler.execution h
        | v # _ \<Rightarrow> fst (Atoi v))"
  "logGetByTaskIDHandler.tr (fst (logGetByTaskIDHandler_Parse d h r))
     = fst (parseTimeRange d (Query r) logStartAt logEndAt)"
  "logGetByTaskIDHandler.sc (fst (logGetByTaskIDHandler_Parse d h r)) = logGetByTaskIDHandler.sc h"
  by (simp_all add: logGetByTaskIDHandler_Parse_def Let_def split: prod.splits list.splits)

lemma logGetByTestNameHandler_Parse_fields:
  "logGetByTestNameHandler.paginate (fst (logGetByTestNameHandler_Parse d h r))
     = (Values_Get (Query r) paginate_param = trueString)"
  "logGetByTestNameHandler.limit (fst (logGetByTestNameHandler_Parse d h r))
     = (case Query r limit_param of [] \<Rightarrow> logGetByTestNameHandler.limit h
        | v # _ \<Rightarrow> fst (Atoi v))"
  "logGetByTestNameHandler.tr (fst (logGetByTestNameHandler_Parse d h r))
     = fst (parseTimeRange d (Query r) logStartAt logEndAt)"
  "logGetByTestNameHandler.sc (fst (logGetByTestNameHandler_Parse d h r))
     = logGetByTestNameHandler.sc h"
  by (simp_all add: logGetByTestNameHandler_Parse_def Let_def split: prod.splits list.splits)

lemma logGroupHandler_Parse_fields:
  "logGroupHandler.paginate (fst (logGroupHandler_Parse d h r))
     = (Values_Get (Query r) paginate_param = trueString)"
  "logGroupHandler.limit (fst (logGroupHandler_Parse d h r))
     = (case Query r limit_param of [] \<Rightarrow> logGroupHandler.limit h | v # _ \<Rightarrow> fst (Atoi v))"
  "logGroupHandler.tags (fst (logGroupHandler_Parse d h r)) = Query r tags_param"
  "logGroupHandler.groupID (fst (logGroupHandler_Parse d h r)) = Vars r ''group_id''"
  "logGroupHandler.tr (fst (logGroupHandler_Parse d h r))
     = (if Values_Get (Query r) logStartAt \<noteq> [] \<or> Values_Get (Query r) logEndAt \<noteq> []
        then fst (parseTimeRange d (Query r) logStartAt logEndAt) else logGroupHandler.tr h)"
  "logGroupHandler.sc (fst (logGroupHandler_Parse d h r)) = logGroupHandler.sc h"
  by (simp_all add: logGroupHandler_Parse_def Let_def split: prod.splits list.splits)

subsection \<open>The retrieval mode\<close>

lemma options_SoftSizeLimit:
  "SoftSizeLimit (logGetByIDHandler_options h1)
     = (if logGetByIDHandler.paginate h1 \<and> logGetByIDHandler.limit h1 \<le> 0
        then softSizeLimit else 0)"
  "SoftSizeLimit (logGetByTaskIDHandler_options h2)
     = (if logGetByTaskIDHandler.paginate h2 \<and> logGetByTaskIDHandler.limit h2 \<le> 0
           \<and> logGetByTaskIDHandler.n h2 \<le> 0
        then softSizeLimit else 0)"
  "SoftSizeLimit (logGetByTestNameHandler_options h3)
     = (if logGetByTestNameHandler.paginate h3 \<and> logGetByTestNameHandler.limit h3 \<le> 0
        then softSizeLimit else 0)"
  "SoftSizeLimit (logGroupHandler_options h4)
     = (if logGroupHandler.paginate h4 \<and> logGroupHandler.limit h4 \<le> 0
        then softSizeLimit else 0)"
  by (simp_all add: logGetByIDHandler_options_def logGetByTaskIDHandler_options_def
      logGetByTestNameHandler_options_def logGroupHandler_options_def zeroOptions_def Let_def)

lemma options_Limit_Tail:
  "Limit (logGetByIDHandler_options h1) = logGetByIDHandler.limit h1"
  "Tail (logGetByIDHandler_options h1) = 0"
  "Limit (logGetByTaskIDHandler_options h2) = logGetByTaskIDHandler.limit h2"
  "Tail (logGetByTaskIDHandler_options h2) = logGetByTaskIDHandler.n h2"
  "Limit (logGetByTestNameHandler_options h3) = logGetByTestNameHandler.limit h3"
  "Tail (logGetByTestNameHandler_options h3) = 0"
  "Limit (logGroupHandler_options h4) = logGroupHandler.limit h4"
  "Tail (logGroupHandler_options h4) = 0"
  by (simp_all add: logGetByIDHandler_options_def logGetByTaskIDHandler_options_def
      logGetByTestNameHandler_options_def logGroupHandler_options_def zeroOptions_def Let_def)

lemma logGroupHandler_Run_callOpts:
  assumes "c \<in> set (newCalls w (snd (logGroupHandler_Run d h w)))"
  shows "\<exists>t. callOpts c = (logGroupHandler_options h)\<lparr>TimeRange := t\<rparr>"
proof -
  have "(logGroupHandler_options h)\<lparr>TimeRange := TimeRange (logGroupHandler_options h)\<rparr>
        = logGroupHandler_options h" by simp
  then have self: "\<exists>t. logGroupHandler_options h = (logGroupHandler_options h)\<lparr>TimeRange := t\<rparr>"
    by metis
  from assms show ?thesis
    unfolding logGroupHandler_Run_calls
    by (auto split: if_splits prod.splits option.splits intro: self)
qed

lemma logGroupHandler_Run_calls_nonempty:
  "newCalls w (snd (logGroupHandler_Run d h w)) \<noteq> []"
  unfolding logGroupHandler_Run_calls
  by (simp split: prod.splits option.splits)

text \<open>
  C3: on each of the four endpoints that paginate, every call to the store passes the
  soft size limit 10 * 1024 * 1024 when the request has \<open>paginate=true\<close>, its parsed
  limit is at most 0 and, by task, its parsed \<open>n\<close> is at most 0; it passes no soft size
  limit (0) otherwise, so a limit above 0 excludes it whatever \<open>paginate\<close> and \<open>n\<close> are.
\<close>

theorem C3_soft_size_limit:
  "passSoftSizeLimit
     (newCalls wi (snd (logGetByIDHandler_Run d (fst (logGetByIDHandler_Parse d hi r)) wi)))
     (if Values_Get (Query r) paginate_param = ''true''
         \<and> logGetByIDHandler.limit (fst (logGetByIDHandler_Parse d hi r)) \<le> 0
      then 10 * 1024 * 1024 else 0)
   \<and> passSoftSizeLimit
     (newCalls wt (snd (logGetByTaskIDHandler_Run d (fst (logGetByTaskIDHandler_Parse d ht r)) wt)))
     (if Values_Get (Query r) paginate_param = ''true''
         \<and> logGetByTaskIDHandler.limit (fst (logGetByTaskIDHandler_Parse d ht r)) \<le> 0
         \<and> logGetByTaskIDHandler.n (fst (logGetByTaskIDHandler_Parse d ht r)) \<le> 0
      then 10 * 1024 * 1024 else 0)
   \<and> passSoftSizeLimit
     (newCalls wn (snd (logGetByTestNameHandler_Run d (fst (logGetByTestNameHandler_Parse d hn r)) wn)))
     (if Values_Get (Query r) paginate_param = ''true''
         \<and> logGetByTestNameHandler.limit (fst (logGetByTestNameHandler_Parse d hn r)) \<le> 0
      then 10 * 1024 * 1024 else 0)
   \<and> passSoftSizeLimit
     (newCalls wg (snd (logGroupHandler_Run d (fst (logGroupHandler_Parse d hg r)) wg)))
     (if Values_Get (Query r) paginate_param = ''true''
         \<and> logGroupHandler.limit (fst (logGroupHandler_Parse d hg r)) \<le> 0
      then 10 * 1024 * 1024 else 0)"
proof (intro conjI)
  show "passSoftSizeLimit
     (newCalls wi (snd (logGetByIDHandler_Run d (fst (logGetByIDHandler_Parse d hi r)) wi)))
     (if Values_Get (Query r) paginate_param = ''true''
         \<and> logGetByIDHandler.limit (fst (logGetByIDHandler_Parse d hi r)) \<le> 0
      then 10 * 1024 * 1024 else 0)"
    by (simp add: passSoftSizeLimit_def logGetByIDHandler_Run_calls options_SoftSizeLimit
        logGetByIDHandler_Parse_fields(1) trueString_def softSizeLimit_def)
next
  show "passSoftSizeLimit
     (newCalls wt (snd (logGetByTaskIDHandler_Run d (fst (logGetByTaskIDHandler_Parse d ht r)) wt)))
     (if Values_Get (Query r) paginate_param = ''true''
         \<and> logGetByTaskIDHandler.limit (fst (logGetByTaskIDHandler_Parse d ht r)) \<le> 0
         \<and> logGetByTaskIDHandler.n (fst (logGetByTaskIDHandler_Parse d ht r)) \<le> 0
      then 10 * 1024 * 1024 else 0)"
    by (simp add: passSoftSizeLimit_def logGetByTaskIDHandler_Run_calls options_SoftSizeLimit
        logGetByTaskIDHandler_Parse_fields(1) trueString_def softSizeLimit_def)
next
  show "passSoftSizeLimit
     (newCalls wn (snd (logGetByTestNameHandler_Run d (fst (logGetByTestNameHandler_Parse d hn r)) wn)))
     (if Values_Get (Query r) paginate_param = ''true''
         \<and> logGetByTestNameHandler.limit (fst (logGetByTestNameHandler_Parse d hn r)) \<le> 0
      then 10 * 1024 * 1024 else 0)"
    by (simp add: passSoftSizeLimit_def logGetByTestNameHandler_Run_calls options_SoftSizeLimit
        logGetByTestNameHandler_Parse_fields(1) trueString_def softSizeLimit_def)
next
  let ?h = "fst (logGroupHandler_Parse d hg r)"
  have "SoftSizeLimit (callOpts c) = SoftSizeLimit (logGroupHandler_options ?h)"
    if "c \<in> set (newCalls wg (snd (logGroupHandler_Run d ?h wg)))" for c
    using logGroupHandler_Run_callOpts [OF that] by auto
  then show "passSoftSizeLimit
     (newCalls wg (snd (logGroupHandler_Run d ?h wg)))
     (if Values_Get (Query r) paginate_param = ''true'' \<and> logGroupHandler.limit ?h \<le> 0
      then 10 * 1024 * 1024 else 0)"
    by (simp add: passSoftSizeLimit_def logGroupHandler_Run_calls_nonempty options_SoftSizeLimit
        logGroupHandler_Parse_fields(1) trueString_def softSizeLimit_def)
qed

theorem C3_soft_size_limit_witness:
  "map (\<lambda>c. SoftSizeLimit (callOpts c))
     (newCalls sampleWorld
        (snd (logGetByTaskIDHandler_Run sampleDeps
                (fst (logGetByTaskIDHandler_Parse sampleDeps
                        (makeGetLogByTaskID sampleConnector) paginateRequest)) sampleWorld)))
   = [10485760]
   \<and> map (\<lambda>c. SoftSizeLimit (callOpts c))
     (newCalls sampleWorld
        (snd (logGetByTaskIDHandler_Run sampleDeps
                (fst (logGetByTaskIDHandler_Parse sampleDeps
                        (makeGetLogByTaskID sampleConnector) limitAndTailRequest)) sampleWorld)))
   = [0]"
proof -
  let ?h = "fst (logGetByTaskIDHandler_Parse sampleDeps
                   (makeGetLogByTaskID sampleConnector) paginateRequest)"
  let ?k = "fst (logGetByTaskIDHandler_Parse sampleDeps
                   (makeGetLogByTaskID sampleConnector) limitAndTailRequest)"
  have ch: "Values_Get (Query paginateRequest) paginate_param = ''true''
            \<and> logGetByTaskIDHandler.limit ?h \<le> 0 \<and> logGetByTaskIDHandler.n ?h \<le> 0"
    by (simp add: logGetByTaskIDHandler_Parse_fields paginateRequest_def Values_Get_def
        param_defs makeGetLogByTaskID_def)
  have ck: "\<not> logGetByTaskIDHandler.limit ?k \<le> 0"
    by (simp add: logGetByTaskIDHandler_Parse_fields limitAndTailRequest_def param_defs Atoi_defs)
  have "passSoftSizeLimit
          (newCalls sampleWorld (snd (logGetByTaskIDHandler_Run sampleDeps ?h sampleWorld)))
          (if Values_Get (Query paginateRequest) paginate_param = ''true''
              \<and> logGetByTaskIDHandler.limit ?h \<le> 0 \<and> logGetByTaskIDHandler.n ?h \<le> 0
           then 10 * 1024 * 1024 else 0)"
    using C3_soft_size_limit [where wt = sampleWorld and d = sampleDeps
        and ht = "makeGetLogByTaskID sampleConnector" and r = paginateRequest]
    by blast
  with ch have 1: "passSoftSizeLimit
          (newCalls sampleWorld (snd (logGetByTaskIDHandler_Run sampleDeps ?h sampleWorld)))
          10485760"
    by simp
  have "passSoftSizeLimit
          (newCalls sampleWorld (snd (logGetByTaskIDHandler_Run sampleDeps ?k sampleWorld)))
          (if Values_Get (Query limitAndTailRequest) paginate_param = ''true''
              \<and> logGetByTaskIDHandler.limit ?k \<le> 0 \<and> logGetByTaskIDHandler.n ?k \<le> 0
           then 10 * 1024 * 1024 else 0)"
    using C3_soft_size_limit [where wt = sampleWorld and d = sampleDeps
        and ht = "makeGetLogByTaskID sampleConnector" and r = limitAndTailRequest]
    by blast
  with ck have 2: "passSoftSizeLimit
          (newCalls sampleWorld (snd (logGetByTaskIDHandler_Run sampleDeps ?k sampleWorld)))
          0"
    by simp
  from 1 2 show ?thesis
    by (simp add: passSoftSizeLimit_def logGetByTaskIDHandler_Run_calls)
qed

lemma activeModes_length:
  "length (activeModes opts) \<le> 1 \<longleftrightarrow>
   \<not> (0 < Limit opts \<and> 0 < Tail opts) \<and> \<not> (0 < Limit opts \<and> 0 < SoftSizeLimit opts)
   \<and> \<not> (0 < Tail opts \<and> 0 < SoftSizeLimit opts)"
  by (simp add: activeModes_def)

text \<open>
  C4, as the spec states it: at most one retrieval mode is active in the options passed
  to the store. It fails for \<open>?limit=5&n=3&paginate=true\<close> by task: the one call
  passes both the limit 5 and the tail count 3.
\<close>

theorem C4_counterexample:
  "map (\<lambda>c. activeModes (callOpts c))
     (newCalls sampleWorld
        (snd (logGetByTaskIDHandler_Run sampleDeps
                (fst (logGetByTaskIDHandler_Parse sampleDeps
                        (makeGetLogByTaskID sampleConnector) limitAndTailRequest)) sampleWorld)))
   = [[''ExplicitLimit'', ''Tail'']]"
  by (simp add: logGetByTaskIDHandler_Run_calls activeModes_def options_Limit_Tail
      options_SoftSizeLimit logGetByTaskIDHandler_Parse_fields limitAndTailRequest_def
      param_defs Atoi_defs)

text \<open>
  C4, amended: in the options passed to the store at most one retrieval mode is active,
  unless the handler by task holds both a limit above 0 and a tail count above 0: then
  the limit and the tail count are both active, and the soft size limit is not.
\<close>

theorem C4_retrieval_modes:
  "(\<forall>c\<in>set (newCalls wt (snd (logGetByTaskIDHandler_Run d ht wt))).
      if 0 < logGetByTaskIDHandler.limit ht \<and> 0 < logGetByTaskIDHandler.n ht
      then activeModes (callOpts c) = [''ExplicitLimit'', ''Tail'']
      else length (activeModes (callOpts c)) \<le> 1)
   \<and> (\<forall>c\<in>set (newCalls wi (snd (logGetByIDHandler_Run d hi wi))).
         length (activeModes (callOpts c)) \<le> 1)
   \<and> (\<forall>c\<in>set (newCalls wn (snd (logGetByTestNameHandler_Run d hn wn))).
         length (activeModes (callOpts c)) \<le> 1)
   \<and> (\<forall>c\<in>set (newCalls wg (snd (logGroupHandler_Run d hg wg))).
         length (activeModes (callOpts c)) \<le> 1)"
proof (intro conjI ballI)
  fix c assume "c \<in> set (newCalls wt (snd (logGetByTaskIDHandler_Run d ht wt)))"
  then have c: "callOpts c = logGetByTaskIDHandler_options ht"
    by (simp add: logGetByTaskIDHandler_Run_calls)
  show "if 0 < logGetByTaskIDHandler.limit ht \<and> 0 < logGetByTaskIDHandler.n ht
        then activeModes (callOpts c) = [''ExplicitLimit'', ''Tail'']
        else length (activeModes (callOpts c)) \<le> 1"
    unfolding c
    by (simp add: activeModes_def options_Limit_Tail options_SoftSizeLimit softSizeLimit_def)
next
  fix c assume "c \<in> set (newCalls wi (snd (logGetByIDHandler_Run d hi wi)))"
  then have c: "callOpts c = logGetByIDHandler_options hi"
    by (simp add: logGetByIDHandler_Run_calls)
  show "length (activeModes (callOpts c)) \<le> 1"
    unfolding c
    by (simp add: activeModes_def options_Limit_Tail options_SoftSizeLimit softSizeLimit_def)
next
  fix c assume "c \<in> set (newCalls wn (snd (logGetByTestNameHandler_Run d hn wn)))"
  then have c: "callOpts c = logGetByTestNameHandler_options hn"
    by (simp add: logGetByTestNameHandler_Run_calls)
  show "length (activeModes (callOpts c)) \<le> 1"
    unfolding c
    by (simp add: activeModes_def options_Limit_Tail options_SoftSizeLimit softSizeLimit_def)
next
  fix c assume "c \<in> set (newCalls wg (snd (logGroupHandler_Run d hg wg)))"
  then obtain t where c: "callOpts c = (logGroupHandler_options hg)\<lparr>TimeRange := t\<rparr>"
    using logGroupHandler_Run_callOpts by blast
  show "length (activeModes (callOpts c)) \<le> 1"
    unfolding c
    by (simp add: activeModes_def options_Limit_Tail options_SoftSizeLimit softSizeLimit_def)
qed

theorem C4_retrieval_modes_witness:
  "list_all (\<lambda>c. length (activeModes (callOpts c)) \<le> 1)
     (newCalls sampleWorld
        (snd (logGetByTaskIDHandler_Run sampleDeps
                (fst (logGetByTaskIDHandler_Parse sampleDeps
                        (makeGetLogByTaskID sampleConnector) paginateRequest)) sampleWorld)))
   \<and> list_all (\<lambda>c. activeModes (callOpts c) = [''ExplicitLimit'', ''Tail''])
     (newCalls sampleWorld
        (snd (logGetByTaskIDHandler_Run sampleDeps
                (fst (logGetByTaskIDHandler_Parse sampleDeps
                        (makeGetLogByTaskID sampleConnector) limitAndTailRequest)) sampleWorld)))
   \<and> list_all (\<lambda>c. length (activeModes (callOpts c)) \<le> 1)
     (newCalls sampleWorld
        (snd (logGroupHandler_Run sampleDeps
                (fst (logGroupHandler_Parse sampleDeps
                        (makeGetLogGroup sampleConnector) limitAndTailRequest)) sampleWorld)))"
proof -
  let ?h = "fst (logGetByTaskIDHandler_Parse sampleDeps
                   (makeGetLogByTaskID sampleConnector) paginateRequest)"
  let ?k = "fst (logGetByTaskIDHandler_Parse sampleDeps
                   (makeGetLogByTaskID sampleConnector) limitAndTailRequest)"
  let ?g = "fst (logGroupHandler_Parse sampleDeps
                   (makeGetLogGroup sampleConnector) limitAndTailRequest)"
  have ch: "\<not> (0 < logGetByTaskIDHandler.limit ?h \<and> 0 < logGetByTaskIDHandler.n ?h)"
    by (simp add: logGetByTaskIDHandler_Parse_fields paginateRequest_def param_defs
        makeGetLogByTaskID_def)
  have ck: "0 < logGetByTaskIDHandler.limit ?k \<and> 0 < logGetByTaskIDHandler.n ?k"
    by (simp add: logGetByTaskIDHandler_Parse_fields limitAndTailRequest_def param_defs Atoi_defs)
  note th = C4_retrieval_modes [where d = sampleDeps and wt = sampleWorld and wg = sampleWorld]
  from th [where ht = ?h] ch have 1:
    "\<forall>c\<in>set (newCalls sampleWorld (snd (logGetByTaskIDHandler_Run sampleDeps ?h sampleWorld))).
       length (activeModes (callOpts c)) \<le> 1"
    by (simp only: if_False) blast
  from th [where ht = ?k] ck have 2:
    "\<forall>c\<in>set (newCalls sampleWorld (snd (logGetByTaskIDHandler_Run sampleDeps ?k sampleWorld))).
       activeModes (callOpts c) = [''ExplicitLimit'', ''Tail'']"
    by (simp only: if_True simp_thms) blast
  from th [where hg = ?g] have 3:
    "\<forall>c\<in>set (newCalls sampleWorld (snd (logGroupHandler_Run sampleDeps ?g sampleWorld))).
       length (activeModes (callOpts c)) \<le> 1"
    by blast
  from 1 2 3 show ?thesis by (simp only: list_all_iff simp_thms)
qed

subsection \<open>The errors of \<open>Parse\<close>\<close>

lemma entries_catcher_Resolve: "entries (catcher_Resolve c) = c"
  by (simp add: catcher_Resolve_def)

lemma catcher_Add_append: "catcher_Add c e = c @ List.map_filter (\<lambda>x. x) [e]"
  by (simp add: catcher_Add_def List.map_filter_def split: option.splits)

text \<open>
  One numeric parameter of \<open>Parse\<close>: the handler is updated with the value of
  \<open>Atoi\<close> on the first value, and the catcher gets the parameter's error, if any.
\<close>

lemma numeric_step:
  "(case xs of
      [] \<Rightarrow> (h, c)
    | v # _ \<Rightarrow> (case Atoi v of (i, err) \<Rightarrow> (f i, catcher_Add c err)))
   = ((case xs of [] \<Rightarrow> h | v # _ \<Rightarrow> f (fst (Atoi v))),
      c @ List.map_filter (\<lambda>e. e) [case xs of [] \<Rightarrow> None | v # _ \<Rightarrow> snd (Atoi v)])"
  by (simp add: catcher_Add_def List.map_filter_def
      split: list.splits prod.splits option.splits)

text \<open>
  The error \<open>Parse\<close> returns, by task and by id: the catcher is resolved with the error
  of \<open>parseTimeRange\<close>, if any, followed by the errors of the numeric parameters.
\<close>

lemma logGetByTaskIDHandler_Parse_error:
  "snd (logGetByTaskIDHandler_Parse d h r)
   = catcher_Resolve (List.map_filter (\<lambda>e. e)
       [snd (parseTimeRange d (Query r) logStartAt logEndAt),
        fieldError (Query r) execution_param,
        fieldError (Query r) limit_param,
        fieldError (Query r) ''n''])"
proof -
  obtain t e where pt: "parseTimeRange d (Query r) logStartAt logEndAt = (t, e)"
    by (cases "parseTimeRange d (Query r) logStartAt logEndAt")
  show ?thesis
    by (simp add: logGetByTaskIDHandler_Parse_def Let_def pt numeric_step fieldError_def
        catcher_Add_append List.map_filter_def)
qed

lemma logGetByIDHandler_Parse_error:
  "snd (logGetByIDHandler_Parse d h r)
   = catcher_Resolve (List.map_filter (\<lambda>e. e)
       [snd (parseTimeRange d (Query r) logStartAt logEndAt),
        fieldError (Query r) limit_param])"
proof -
  obtain t e where pt: "parseTimeRange d (Query r) logStartAt logEndAt = (t, e)"
    by (cases "parseTimeRange d (Query r) logStartAt logEndAt")
  show ?thesis
    by (simp add: logGetByIDHandler_Parse_def Let_def pt numeric_step fieldError_def
        catcher_Add_append List.map_filter_def)
qed




subsection \<open>A numeric parameter given more than once\<close>

lemma Values_Get_first:
  "vals key = v # rest \<Longrightarrow> Values_Get (vals(key := [v])) k = Values_Get vals k"
  by (simp add: Values_Get_def)

lemma case_first:
  "vals key = v # rest \<Longrightarrow>
   (case (vals(key := [v])) k of [] \<Rightarrow> a | x # _ \<Rightarrow> f x)
   = (case vals k of [] \<Rightarrow> a | x # _ \<Rightarrow> f x)"
  by (cases "k = key") simp_all

lemma logGetByTestNameHandler_Parse_error:
  "snd (logGetByTestNameHandler_Parse d h r)
   = catcher_Resolve (List.map_filter (\<lambda>e. e)
       [snd (parseTimeRange d (Query r) logStartAt logEndAt),
        fieldError (Query r) limit_param])"
proof -
  obtain t e where pt: "parseTimeRange d (Query r) logStartAt logEndAt = (t, e)"
    by (cases "parseTimeRange d (Query r) logStartAt logEndAt")
  show ?thesis
    by (simp add: logGetByTestNameHandler_Parse_def Let_def pt numeric_step fieldError_def
        catcher_Add_append List.map_filter_def)
qed

lemma logGroupHandler_Parse_error:
  "snd (logGroupHandler_Parse d h r)
   = catcher_Resolve (List.map_filter (\<lambda>e. e)
       [if Values_Get (Query r) logStartAt \<noteq> [] \<or> Values_Get (Query r) logEndAt \<noteq> []
        then snd (parseTimeRange d (Query r) logStartAt logEndAt) else None,
        fieldError (Query r) limit_param])"
proof -
  obtain t e where pt: "parseTimeRange d (Query r) logStartAt logEndAt = (t, e)"
    by (cases "parseTimeRange d (Query r) logStartAt logEndAt")
  show ?thesis
    by (simp add: logGroupHandler_Parse_def Let_def pt numeric_step fieldError_def
        catcher_Add_append List.map_filter_def)
qed

lemma options_Execution:
  "Execution (logGetByTaskIDHandler_options h) = logGetByTaskIDHandler.execution h"
  by (simp add: logGetByTaskIDHandler_options_def zeroOptions_def Let_def)

text \<open>
  C10: when \<open>execution\<close>, \<open>limit\<close> or \<open>n\<close> has several values, the first of them,
  \<open>v\<close>, is the one parsed and used: the handler's field and the option \<open>Run\<close> builds
  from it hold the value of \<open>Atoi\<close> on \<open>v\<close>, and the parameter's entry in the returned
  error is the error of \<open>Atoi\<close> on \<open>v\<close>, if any. The later values are not read and add
  no error: for a \<open>parseTimeRange\<close> that answers alike on queries with the same
  \<open>start\<close> and \<open>end\<close> values (it is given the whole query), \<open>Parse\<close> gives the handler
  and the error it gives for the request with the first value alone, in each of the
  four handlers.
\<close>

theorem C10_first_occurrence_only:
  assumes "key = execution_param \<or> key = limit_param \<or> key = ''n''"
    and "Query r key = v # rest"
  shows "(key = execution_param \<longrightarrow>
            logGetByTaskIDHandler.execution (fst (logGetByTaskIDHandler_Parse d ht r)) = fst (Atoi v)
          \<and> Execution (logGetByTaskIDHandler_options (fst (logGetByTaskIDHandler_Parse d ht r)))
              = fst (Atoi v))
       \<and> (key = ''n'' \<longrightarrow>
            logGetByTaskIDHandler.n (fst (logGetByTaskIDHandler_Parse d ht r)) = fst (Atoi v)
          \<and> Tail (logGetByTaskIDHandler_options (fst (logGetByTaskIDHandler_Parse d ht r)))
              = fst (Atoi v))
       \<and> (key = limit_param \<longrightarrow>
            logGetByTaskIDHandler.limit (fst (logGetByTaskIDHandler_Parse d ht r)) = fst (Atoi v)
          \<and> logGetByIDHandler.limit (fst (logGetByIDHandler_Parse d hi r)) = fst (Atoi v)
          \<and> logGetByTestNameHandler.limit (fst (logGetByTestNameHandler_Parse d hn r))
              = fst (Atoi v)
          \<and> logGroupHandler.limit (fst (logGroupHandler_Parse d hg r)) = fst (Atoi v)
          \<and> Limit (logGetByTaskIDHandler_options (fst (logGetByTaskIDHandler_Parse d ht r)))
              = fst (Atoi v)
          \<and> Limit (logGetByIDHandler_options (fst (logGetByIDHandler_Parse d hi r)))
              = fst (Atoi v)
          \<and> Limit (logGetByTestNameHandler_options (fst (logGetByTestNameHandler_Parse d hn r)))
              = fst (Atoi v)
          \<and> Limit (logGroupHandler_options (fst (logGroupHandler_Parse d hg r)))
              = fst (Atoi v))
       \<and> fieldError (Query r) key = snd (Atoi v)
       \<and> entries (snd (logGetByTaskIDHandler_Parse d ht r))
           = List.map_filter (\<lambda>e. e)
               [snd (parseTimeRange d (Query r) logStartAt logEndAt),
                fieldError (Query r) execution_param,
                fieldError (Query r) limit_param,
                fieldError (Query r) ''n'']
       \<and> entries (snd (logGetByIDHandler_Parse d hi r))
           = List.map_filter (\<lambda>e. e)
               [snd (parseTimeRange d (Query r) logStartAt logEndAt),
                fieldError (Query r) limit_param]
       \<and> entries (snd (logGetByTestNameHandler_Parse d hn r))
           = List.map_filter (\<lambda>e. e)
               [snd (parseTimeRange d (Query r) logStartAt logEndAt),
                fieldError (Query r) limit_param]
       \<and> entries (snd (logGroupHandler_Parse d hg r))
           = List.map_filter (\<lambda>e. e)
               [if Values_Get (Query r) logStartAt \<noteq> [] \<or> Values_Get (Query r) logEndAt \<noteq> []
                then snd (parseTimeRange d (Query r) logStartAt logEndAt) else None,
                fieldError (Query r) limit_param]
       \<and> ((\<forall>vals vals'. vals logStartAt = vals' logStartAt \<and> vals logEndAt = vals' logEndAt
                \<longrightarrow> parseTimeRange d vals logStartAt logEndAt
                    = parseTimeRange d vals' logStartAt logEndAt)
           \<longrightarrow> logGetByTaskIDHandler_Parse d ht r
                 = logGetByTaskIDHandler_Parse d ht (r\<lparr>Query := (Query r)(key := [v])\<rparr>)
               \<and> logGetByIDHandler_Parse d hi r
                 = logGetByIDHandler_Parse d hi (r\<lparr>Query := (Query r)(key := [v])\<rparr>)
               \<and> logGetByTestNameHandler_Parse d hn r
                 = logGetByTestNameHandler_Parse d hn (r\<lparr>Query := (Query r)(key := [v])\<rparr>)
               \<and> logGroupHandler_Parse d hg r
                 = logGroupHandler_Parse d hg (r\<lparr>Query := (Query r)(key := [v])\<rparr>))"
proof (intro conjI impI)
  assume "key = execution_param"
  with assms(2) have q: "Query r execution_param = v # rest" by simp
  show e: "logGetByTaskIDHandler.execution (fst (logGetByTaskIDHandler_Parse d ht r))
           = fst (Atoi v)"
    by (simp add: logGetByTaskIDHandler_Parse_fields q)
  show "Execution (logGetByTaskIDHandler_options (fst (logGetByTaskIDHandler_Parse d ht r)))
        = fst (Atoi v)"
    by (simp only: options_Execution e)
next
  assume "key = ''n''"
  with assms(2) have q: "Query r ''n'' = v # rest" by simp
  show n: "logGetByTaskIDHandler.n (fst (logGetByTaskIDHandler_Parse d ht r)) = fst (Atoi v)"
    by (simp add: logGetByTaskIDHandler_Parse_fields q)
  show "Tail (logGetByTaskIDHandler_options (fst (logGetByTaskIDHandler_Parse d ht r)))
        = fst (Atoi v)"
    by (simp only: options_Limit_Tail n)
next
  assume "key = limit_param"
  with assms(2) have q: "Query r limit_param = v # rest" by simp
  show t: "logGetByTaskIDHandler.limit (fst (logGetByTaskIDHandler_Parse d ht r)) = fst (Atoi v)"
    by (simp add: logGetByTaskIDHandler_Parse_fields q)
  show i: "logGetByIDHandler.limit (fst (logGetByIDHandler_Parse d hi r)) = fst (Atoi v)"
    by (simp add: logGetByIDHandler_Parse_fields q)
  show n: "logGetByTestNameHandler.limit (fst (logGetByTestNameHandler_Parse d hn r))
           = fst (Atoi v)"
    by (simp add: logGetByTestNameHandler_Parse_fields q)
  show g: "logGroupHandler.limit (fst (logGroupHandler_Parse d hg r)) = fst (Atoi v)"
    by (simp add: logGroupHandler_Parse_fields q)
  show "Limit (logGetByTaskIDHandler_options (fst (logGetByTaskIDHandler_Parse d ht r)))
        = fst (Atoi v)"
    by (simp only: options_Limit_Tail t)
  show "Limit (logGetByIDHandler_options (fst (logGetByIDHandler_Parse d hi r))) = fst (Atoi v)"
    by (simp only: options_Limit_Tail i)
  show "Limit (logGetByTestNameHandler_options (fst (logGetByTestNameHandler_Parse d hn r)))
        = fst (Atoi v)"
    by (simp only: options_Limit_Tail n)
  show "Limit (logGroupHandler_options (fst (logGroupHandler_Parse d hg r))) = fst (Atoi v)"
    by (simp only: options_Limit_Tail g)
next
  show "fieldError (Query r) key = snd (Atoi v)"
    by (simp add: fieldError_def assms(2))
next
  show "entries (snd (logGetByTaskIDHandler_Parse d ht r))
           = List.map_filter (\<lambda>e. e)
               [snd (parseTimeRange d (Query r) logStartAt logEndAt),
                fieldError (Query r) execution_param,
                fieldError (Query r) limit_param,
                fieldError (Query r) ''n'']"
    unfolding logGetByTaskIDHandler_Parse_error by (rule entries_catcher_Resolve)
next
  show "entries (snd (logGetByIDHandler_Parse d hi r))
           = List.map_filter (\<lambda>e. e)
               [snd (parseTimeRange d (Query r) logStartAt logEndAt),
                fieldError (Query r) limit_param]"
    unfolding logGetByIDHandler_Parse_error by (rule entries_catcher_Resolve)
next
  show "entries (snd (logGetByTestNameHandler_Parse d hn r))
           = List.map_filter (\<lambda>e. e)
               [snd (parseTimeRange d (Query r) logStartAt logEndAt),
                fieldError (Query r) limit_param]"
    unfolding logGetByTestNameHandler_Parse_error by (rule entries_catcher_Resolve)
next
  show "entries (snd (logGroupHandler_Parse d hg r))
           = List.map_filter (\<lambda>e. e)
               [if Values_Get (Query r) logStartAt \<noteq> [] \<or> Values_Get (Query r) logEndAt \<noteq> []
                then snd (parseTimeRange d (Query r) logStartAt logEndAt) else None,
                fieldError (Query r) limit_param]"
    unfolding logGroupHandler_Parse_error by (rule entries_catcher_Resolve)
next
  assume loc: "\<forall>vals vals'. vals logStartAt = vals' logStartAt \<and> vals logEndAt = vals' logEndAt
                \<longrightarrow> parseTimeRange d vals logStartAt logEndAt
                    = parseTimeRange d vals' logStartAt logEndAt"
  let ?q = "(Query r)(key := [v])"
  from assms(1) have k: "key \<noteq> logStartAt" "key \<noteq> logEndAt" "key \<noteq> procName_param"
    "key \<noteq> tags_param" "key \<noteq> printTime_param" "key \<noteq> printPriority_param"
    "key \<noteq> paginate_param"
    unfolding param_defs by (elim disjE; simp)+
  have other: "?q k = Query r k" if "k \<noteq> key" for k
    using that by simp
  note get = Values_Get_first [of "Query r" key v rest, OF assms(2)]
  note first = case_first [of "Query r" key v rest, OF assms(2)]
  have "?q logStartAt = Query r logStartAt \<and> ?q logEndAt = Query r logEndAt"
    using k(1,2) by (simp add: other)
  with loc have
    p: "parseTimeRange d ?q logStartAt logEndAt = parseTimeRange d (Query r) logStartAt logEndAt"
    by blast
  obtain t e where pt: "parseTimeRange d (Query r) logStartAt logEndAt = (t, e)"
    by (cases "parseTimeRange d (Query r) logStartAt logEndAt")
  have tags: "?q tags_param = Query r tags_param"
    using k(4) by (simp add: other)
  show "logGetByTaskIDHandler_Parse d ht r
           = logGetByTaskIDHandler_Parse d ht (r\<lparr>Query := ?q\<rparr>)"
    by (simp add: logGetByTaskIDHandler_Parse_def Let_def p pt numeric_step first get tags
        del: fun_upd_apply cong: list.case_cong)
  show "logGetByIDHandler_Parse d hi r = logGetByIDHandler_Parse d hi (r\<lparr>Query := ?q\<rparr>)"
    by (simp add: logGetByIDHandler_Parse_def Let_def p pt numeric_step first get tags
        del: fun_upd_apply cong: list.case_cong)
  show "logGetByTestNameHandler_Parse d hn r
           = logGetByTestNameHandler_Parse d hn (r\<lparr>Query := ?q\<rparr>)"
    by (simp add: logGetByTestNameHandler_Parse_def Let_def p pt numeric_step first get tags
        del: fun_upd_apply cong: list.case_cong)
  show "logGroupHandler_Parse d hg r = logGroupHandler_Parse d hg (r\<lparr>Query := ?q\<rparr>)"
    by (simp add: logGroupHandler_Parse_def Let_def p pt numeric_step first get tags
        del: fun_upd_apply cong: list.case_cong)
qed

theorem C10_first_occurrence_only_witness:
  "Query repeatedRequest limit_param = [''5'', ''abc'', ''7'']
   \<and> logGetByTaskIDHandler_Parse sampleDeps (makeGetLogByTaskID sampleConnector) repeatedRequest
     = logGetByTaskIDHandler_Parse sampleDeps (makeGetLogByTaskID sampleConnector)
         (repeatedRequest\<lparr>Query := (Query repeatedRequest)(limit_param := [''5''])\<rparr>)
   \<and> logGetByTaskIDHandler.limit
       (fst (logGetByTaskIDHandler_Parse sampleDeps (makeGetLogByTaskID sampleConnector)
               repeatedRequest)) = 5
   \<and> logGetByIDHandler.limit
       (fst (logGetByIDHandler_Parse sampleDeps (makeGetLogByID sampleConnector)
               repeatedRequest)) = 5
   \<and> Limit (logGetByIDHandler_options
              (fst (logGetByIDHandler_Parse sampleDeps (makeGetLogByID sampleConnector)
                      repeatedRequest))) = 5
   \<and> entries (snd (logGetByIDHandler_Parse sampleDeps (makeGetLogByID sampleConnector)
                    repeatedRequest)) = []
   \<and> Query firstMalformedRequest limit_param = [''abc'', ''5'']
   \<and> logGetByIDHandler.limit
       (fst (logGetByIDHandler_Parse sampleDeps (makeGetLogByID sampleConnector)
               firstMalformedRequest)) = 0
   \<and> entries (snd (logGetByIDHandler_Parse sampleDeps (makeGetLogByID sampleConnector)
                    firstMalformedRequest)) = [NumError ''Atoi'' ''abc'' ErrSyntax]"
proof -
  have a: "limit_param = execution_param \<or> limit_param = limit_param \<or> limit_param = ''n''"
    by simp
  have b: "Query repeatedRequest limit_param = ''5'' # [''abc'', ''7'']"
    by (simp add: repeatedRequest_def limit_param_def)
  have b': "Query firstMalformedRequest limit_param = ''abc'' # [''5'']"
    by (simp add: firstMalformedRequest_def limit_param_def)
  have c: "\<forall>vals vals'. vals logStartAt = vals' logStartAt \<and> vals logEndAt = vals' logEndAt
           \<longrightarrow> parseTimeRange sampleDeps vals logStartAt logEndAt
               = parseTimeRange sampleDeps vals' logStartAt logEndAt"
    by (simp add: sampleDeps_def sample_parseTimeRange_def Values_Get_def)
  have five: "Atoi ''5'' = (5, None)" by (simp add: Atoi_defs)
  have abc: "Atoi ''abc'' = (0, Some (NumError ''Atoi'' ''abc'' ErrSyntax))"
    by (simp add: Atoi_defs)
  have pr: "snd (parseTimeRange sampleDeps (Query repeatedRequest) logStartAt logEndAt) = None"
    by (simp add: repeatedRequest_def param_defs sample_defs Values_Get_def)
  have pf: "snd (parseTimeRange sampleDeps (Query firstMalformedRequest) logStartAt logEndAt)
            = None"
    by (simp add: firstMalformedRequest_def param_defs sample_defs Values_Get_def)
  note th = C10_first_occurrence_only [OF a b, where d = sampleDeps
      and ht = "makeGetLogByTaskID sampleConnector" and hi = "makeGetLogByID sampleConnector"]
  note th' = C10_first_occurrence_only [OF a b', where d = sampleDeps
      and hi = "makeGetLogByID sampleConnector"]
  from th c have 1: "logGetByTaskIDHandler_Parse sampleDeps (makeGetLogByTaskID sampleConnector)
             repeatedRequest
           = logGetByTaskIDHandler_Parse sampleDeps (makeGetLogByTaskID sampleConnector)
               (repeatedRequest\<lparr>Query := (Query repeatedRequest)(limit_param := [''5''])\<rparr>)"
    by blast
  from th have 2: "logGetByTaskIDHandler.limit
       (fst (logGetByTaskIDHandler_Parse sampleDeps (makeGetLogByTaskID sampleConnector)
               repeatedRequest)) = fst (Atoi ''5'')"
    by blast
  from th have 3: "logGetByIDHandler.limit
       (fst (logGetByIDHandler_Parse sampleDeps (makeGetLogByID sampleConnector)
               repeatedRequest)) = fst (Atoi ''5'')"
    by blast
  from th have 4: "Limit (logGetByIDHandler_options
              (fst (logGetByIDHandler_Parse sampleDeps (makeGetLogByID sampleConnector)
                      repeatedRequest))) = fst (Atoi ''5'')"
    by blast
  from th have "entries (snd (logGetByIDHandler_Parse sampleDeps (makeGetLogByID sampleConnector)
                    repeatedRequest))
        = List.map_filter (\<lambda>e. e)
            [snd (parseTimeRange sampleDeps (Query repeatedRequest) logStartAt logEndAt),
             fieldError (Query repeatedRequest) limit_param]"
    by blast
  moreover from th have "fieldError (Query repeatedRequest) limit_param = snd (Atoi ''5'')"
    by blast
  ultimately have 5: "entries (snd (logGetByIDHandler_Parse sampleDeps
                    (makeGetLogByID sampleConnector) repeatedRequest)) = []"
    by (simp add: pr five List.map_filter_def)
  from th' have 6: "logGetByIDHandler.limit
       (fst (logGetByIDHandler_Parse sampleDeps (makeGetLogByID sampleConnector)
               firstMalformedRequest)) = fst (Atoi ''abc'')"
    by blast
  from th' have "entries (snd (logGetByIDHandler_Parse sampleDeps (makeGetLogByID sampleConnector)
                    firstMalformedRequest))
        = List.map_filter (\<lambda>e. e)
            [snd (parseTimeRange sampleDeps (Query firstMalformedRequest) logStartAt logEndAt),
             fieldError (Query firstMalformedRequest) limit_param]"
    by blast
  moreover from th' have "fieldError (Query firstMalformedRequest) limit_param
                          = snd (Atoi ''abc'')"
    by blast
  ultimately have 7: "entries (snd (logGetByIDHandler_Parse sampleDeps
                    (makeGetLogByID sampleConnector) firstMalformedRequest))
                      = [NumError ''Atoi'' ''abc'' ErrSyntax]"
    by (simp add: pf abc List.map_filter_def)
  from b b' 1 2 3 4 5 6 7 show ?thesis
    by (simp only: five abc fst_conv)
qed

subsection \<open>The tags of a group\<close>

text \<open>
  C6: every call the group handler makes for a request passes as tags the request's
  \<open>tags\<close> values followed by the group id of the path, so the group id is among the
  tags whatever the request's tags are.
\<close>

theorem C6_group_tags:
  "newCalls w (snd (logGroupHandler_Run d (fst (logGroupHandler_Parse d h r)) w)) \<noteq> []
   \<and> (\<forall>c\<in>set (newCalls w (snd (logGroupHandler_Run d (fst (logGroupHandler_Parse d h r)) w))).
         Tags (callOpts c) = Query r tags_param @ [Vars r ''group_id'']
         \<and> Vars r ''group_id'' \<in> set (Tags (callOpts c)))"
proof (intro conjI ballI)
  show "newCalls w (snd (logGroupHandler_Run d (fst (logGroupHandler_Parse d h r)) w)) \<noteq> []"
    by (rule logGroupHandler_Run_calls_nonempty)
next
  fix c
  assume "c \<in> set (newCalls w (snd (logGroupHandler_Run d (fst (logGroupHandler_Parse d h r)) w)))"
  then obtain t where
    c: "callOpts c = (logGroupHandler_options (fst (logGroupHandler_Parse d h r)))\<lparr>TimeRange := t\<rparr>"
    using logGroupHandler_Run_callOpts by blast
  show t: "Tags (callOpts c) = Query r tags_param @ [Vars r ''group_id'']"
    unfolding c
    by (simp add: logGroupHandler_options_def logGroupHandler_Parse_fields zeroOptions_def Let_def)
  show "Vars r ''group_id'' \<in> set (Tags (callOpts c))"
    unfolding t by simp
qed

theorem C6_group_tags_witness:
  "map (\<lambda>c. Tags (callOpts c))
     (newCalls sampleWorld
        (snd (logGroupHandler_Run sampleDeps
                (fst (logGroupHandler_Parse sampleDeps
                        (makeGetLogGroup sampleConnector) paginateRequest)) sampleWorld)))
   = [[''a'', ''b'', ''G1''], [''a'', ''b'', ''G1'']]
   \<and> map (\<lambda>c. Tags (callOpts c))
     (newCalls sampleWorld
        (snd (logGroupHandler_Run sampleDeps
                (fst (logGroupHandler_Parse sampleDeps
                        (makeGetLogGroup sampleConnector) limitAndTailRequest)) sampleWorld)))
   = [[''G1''], [''G1'']]"
proof -
  let ?cs = "\<lambda>r. newCalls sampleWorld
        (snd (logGroupHandler_Run sampleDeps
                (fst (logGroupHandler_Parse sampleDeps
                        (makeGetLogGroup sampleConnector) r)) sampleWorld))"
  have len: "length (?cs r) = 2" if "Query r logStartAt = []" "Query r logEndAt = []" for r
    using that unfolding logGroupHandler_Run_calls
    by (simp add: logGroupHandler_Parse_fields makeGetLogGroup_def Values_Get_def
        TimeRange_IsZero_def Time_IsZero_def zeroTimeRange_def sampleConnector_def)
  have tags: "map (\<lambda>c. Tags (callOpts c)) (?cs r)
              = replicate (length (?cs r)) (Query r tags_param @ [Vars r ''group_id''])" for r
    using C6_group_tags [of sampleWorld sampleDeps "makeGetLogGroup sampleConnector" r]
    by (simp add: map_replicate_const [symmetric] cong: map_cong)
  have 1: "map (\<lambda>c. Tags (callOpts c)) (?cs paginateRequest) = [[''a'', ''b'', ''G1''], [''a'', ''b'', ''G1'']]"
    unfolding tags
    by (simp add: len paginateRequest_def param_defs sampleVars_def numeral_2_eq_2)
  have 2: "map (\<lambda>c. Tags (callOpts c)) (?cs limitAndTailRequest) = [[''G1''], [''G1'']]"
    unfolding tags
    by (simp add: len limitAndTailRequest_def param_defs sampleVars_def numeral_2_eq_2)
  from 1 2 show ?thesis by (rule conjI)
qed

subsection \<open>Pages\<close>

lemma newBuildloggerResponder_pages:
  "newBuildloggerResponder d data lastT nextT paginated = TextResponder data' (Some pages)
   \<Longrightarrow> paginated \<and> data' = data \<and> pages = newPages d lastT nextT
       \<and> SetPages d (newPages d lastT nextT) = None"
  by (simp add: newBuildloggerResponder_def NewTextResponse_def Let_def
      split: if_splits option.splits)

lemma logGroupHandler_Run_find_result:
  "FindGroupedLogs (logGroupHandler.sc h) opts (store w) = ((bs, nx, pg, None), s)
   \<Longrightarrow> fst (logGroupHandler_Run_find d h opts w)
       = newBuildloggerResponder d bs (StartAt (logGroupHandler.tr h)) nx pg"
  by (simp add: logGroupHandler_Run_find_def call_FindGroupedLogs_def)

text \<open>
  C8: when the store reports no truncation, the response is the text with no pages.
  When it does, the response carries the two pages \<open>Next\<close> and \<open>Prev\<close>, with the
  fixed base location, the parameter names \<open>start\<close> and \<open>limit\<close>, and as keys the
  RFC3339 formats of the store's continuation instant and of the start instant the
  handler passes; when \<open>SetPages\<close> refuses them the response is an error. Each of
  the four handlers that return a log passes the start of the range it holds and what
  the store returned: by id, by task, by test name, and by group, where the store is
  asked with the handler's options when the range is not zero and, when it is zero,
  after the metadata fetch, with the inferred range.
\<close>

theorem C8_pages:
  "newBuildloggerResponder d data lastT nextT False = TextResponder data None
   \<and> (let pages =
            \<lparr>Next = Some \<lparr>BaseURL = ''https://cedar.mongodb.com'', KeyQueryParam = ''start'',
                           LimitQueryParam = ''limit'', Key = Format_RFC3339 d nextT,
                           PageLimit = 0, Relation = ''next''\<rparr>,
             Prev = Some \<lparr>BaseURL = ''https://cedar.mongodb.com'', KeyQueryParam = ''start'',
                           LimitQueryParam = ''limit'', Key = Format_RFC3339 d lastT,
                           PageLimit = 0, Relation = ''prev''\<rparr>\<rparr>
       in newBuildloggerResponder d data lastT nextT True
          = (case SetPages d pages of
               None \<Rightarrow> TextResponder data (Some pages)
             | Some err \<Rightarrow> MakeJSONErrorResponder (Wrapf err ''problem setting response pages'')))
   \<and> (\<forall>bs nx pg s.
         FindLogByID (logGetByIDHandler.sc hi) (logGetByIDHandler_options hi) (store wi)
           = ((bs, nx, pg, None), s)
         \<longrightarrow> fst (logGetByIDHandler_Run d hi wi)
             = newBuildloggerResponder d bs (StartAt (logGetByIDHandler.tr hi)) nx pg)
   \<and> (\<forall>bs nx pg s.
         FindLogsByTaskID (logGetByTaskIDHandler.sc ht) (logGetByTaskIDHandler_options ht) (store wt)
           = ((bs, nx, pg, None), s)
         \<longrightarrow> fst (logGetByTaskIDHandler_Run d ht wt)
             = newBuildloggerResponder d bs (StartAt (logGetByTaskIDHandler.tr ht)) nx pg)
   \<and> (\<forall>bs nx pg s.
         FindLogsByTestName (logGetByTestNameHandler.sc hn) (logGetByTestNameHandler_options hn)
             (store wn)
           = ((bs, nx, pg, None), s)
         \<longrightarrow> fst (logGetByTestNameHandler_Run d hn wn)
             = newBuildloggerResponder d bs (StartAt (logGetByTestNameHandler.tr hn)) nx pg)
   \<and> (\<forall>bs nx pg s.
         \<not> TimeRange_IsZero (logGroupHandler.tr hg)
         \<and> FindGroupedLogs (logGroupHandler.sc hg) (logGroupHandler_options hg) (store wg)
             = ((bs, nx, pg, None), s)
         \<longrightarrow> fst (logGroupHandler_Run d hg wg)
             = newBuildloggerResponder d bs (StartAt (logGroupHandler.tr hg)) nx pg)
   \<and> (\<forall>logs s bs nx pg s'.
         TimeRange_IsZero (logGroupHandler.tr hg)
         \<and> FindLogMetadataByTestName (logGroupHandler.sc hg) (logGroupHandler_options hg)
               (store wg)
             = ((logs, None), s)
         \<and> FindGroupedLogs (logGroupHandler.sc hg)
               ((logGroupHandler_options hg)
                  \<lparr>TimeRange := inferTimeRange (logGroupHandler.tr hg) logs\<rparr>) s
             = ((bs, nx, pg, None), s')
         \<longrightarrow> fst (logGroupHandler_Run d hg wg)
             = newBuildloggerResponder d bs (StartAt (logGroupHandler.tr hg)) nx pg)"
proof (intro conjI allI impI)
  show "newBuildloggerResponder d data lastT nextT False = TextResponder data None"
    by (simp add: newBuildloggerResponder_def NewTextResponse_def)
next
  show "let pages =
            \<lparr>Next = Some \<lparr>BaseURL = ''https://cedar.mongodb.com'', KeyQueryParam = ''start'',
                           LimitQueryParam = ''limit'', Key = Format_RFC3339 d nextT,
                           PageLimit = 0, Relation = ''next''\<rparr>,
             Prev = Some \<lparr>BaseURL = ''https://cedar.mongodb.com'', KeyQueryParam = ''start'',
                           LimitQueryParam = ''limit'', Key = Format_RFC3339 d lastT,
                           PageLimit = 0, Relation = ''prev''\<rparr>\<rparr>
       in newBuildloggerResponder d data lastT nextT True
          = (case SetPages d pages of
               None \<Rightarrow> TextResponder data (Some pages)
             | Some err \<Rightarrow> MakeJSONErrorResponder (Wrapf err ''problem setting response pages''))"
    by (simp add: newBuildloggerResponder_def newPages_def baseURL_def Let_def
        split: option.splits)
next
  fix bs nx pg s
  assume "FindLogByID (logGetByIDHandler.sc hi) (logGetByIDHandler_options hi) (store wi)
           = ((bs, nx, pg, None), s)"
  then show "fst (logGetByIDHandler_Run d hi wi)
             = newBuildloggerResponder d bs (StartAt (logGetByIDHandler.tr hi)) nx pg"
    by (simp add: logGetByIDHandler_Run_def call_FindLogByID_def Let_def)
next
  fix bs nx pg s
  assume "FindLogsByTaskID (logGetByTaskIDHandler.sc ht) (logGetByTaskIDHandler_options ht) (store wt)
           = ((bs, nx, pg, None), s)"
  then show "fst (logGetByTaskIDHandler_Run d ht wt)
             = newBuildloggerResponder d bs (StartAt (logGetByTaskIDHandler.tr ht)) nx pg"
    by (simp add: logGetByTaskIDHandler_Run_def call_FindLogsByTaskID_def Let_def)
next
  fix bs nx pg s
  assume "FindLogsByTestName (logGetByTestNameHandler.sc hn) (logGetByTestNameHandler_options hn)
             (store wn)
           = ((bs, nx, pg, None), s)"
  then show "fst (logGetByTestNameHandler_Run d hn wn)
             = newBuildloggerResponder d bs (StartAt (logGetByTestNameHandler.tr hn)) nx pg"
    by (simp add: logGetByTestNameHandler_Run_def call_FindLogsByTestName_def Let_def)
next
  fix bs nx pg s
  assume a: "\<not> TimeRange_IsZero (logGroupHandler.tr hg)
         \<and> FindGroupedLogs (logGroupHandler.sc hg) (logGroupHandler_options hg) (store wg)
             = ((bs, nx, pg, None), s)"
  then have "logGroupHandler_Run d hg wg
             = logGroupHandler_Run_find d hg (logGroupHandler_options hg) wg"
    by (simp add: logGroupHandler_Run_def logGroupHandler_options_TimeRange Let_def)
  with a show "fst (logGroupHandler_Run d hg wg)
             = newBuildloggerResponder d bs (StartAt (logGroupHandler.tr hg)) nx pg"
    by (simp add: logGroupHandler_Run_find_result)
next
  fix logs s bs nx pg s'
  assume a: "TimeRange_IsZero (logGroupHandler.tr hg)
         \<and> FindLogMetadataByTestName (logGroupHandler.sc hg) (logGroupHandler_options hg)
               (store wg)
             = ((logs, None), s)
         \<and> FindGroupedLogs (logGroupHandler.sc hg)
               ((logGroupHandler_options hg)
                  \<lparr>TimeRange := inferTimeRange (logGroupHandler.tr hg) logs\<rparr>) s
             = ((bs, nx, pg, None), s')"
  let ?w = "\<lparr>store = s,
             calls = calls wg @ [Call_FindLogMetadataByTestName (logGroupHandler_options hg)]\<rparr>"
  from a have "logGroupHandler_Run d hg wg
             = logGroupHandler_Run_find d hg
                 ((logGroupHandler_options hg)
                    \<lparr>TimeRange := inferTimeRange (logGroupHandler.tr hg) logs\<rparr>) ?w"
    by (simp add: logGroupHandler_Run_def logGroupHandler_options_TimeRange
        call_FindLogMetadataByTestName_def Let_def)
  moreover from a have "FindGroupedLogs (logGroupHandler.sc hg)
               ((logGroupHandler_options hg)
                  \<lparr>TimeRange := inferTimeRange (logGroupHandler.tr hg) logs\<rparr>) (store ?w)
             = ((bs, nx, pg, None), s')"
    by simp
  ultimately show "fst (logGroupHandler_Run d hg wg)
             = newBuildloggerResponder d bs (StartAt (logGroupHandler.tr hg)) nx pg"
    by (simp only: logGroupHandler_Run_find_result)
qed

theorem C8_pages_witness:
  "newBuildloggerResponder sampleDeps ''log lines'' 0 77 True
     = TextResponder ''log lines''
         (Some \<lparr>Next = Some \<lparr>BaseURL = ''https://cedar.mongodb.com'', KeyQueryParam = ''start'',
                              LimitQueryParam = ''limit'', Key = ''later'',
                              PageLimit = 0, Relation = ''next''\<rparr>,
                Prev = Some \<lparr>BaseURL = ''https://cedar.mongodb.com'', KeyQueryParam = ''start'',
                              LimitQueryParam = ''limit'', Key = ''0001-01-01T00:00:00Z'',
                              PageLimit = 0, Relation = ''prev''\<rparr>\<rparr>)
   \<and> newBuildloggerResponder refusingDeps ''log lines'' 0 77 True
     = MakeJSONErrorResponder (Wrapf (OtherError ''invalid page'') ''problem setting response pages'')
   \<and> fst (logGetByTaskIDHandler_Run sampleDeps
            (fst (logGetByTaskIDHandler_Parse sampleDeps
                    (makeGetLogByTaskID sampleConnector) paginateRequest)) sampleWorld)
     = newBuildloggerResponder sampleDeps ''log lines'' 0 77 True
   \<and> fst (logGroupHandler_Run sampleDeps
            (fst (logGroupHandler_Parse sampleDeps
                    (makeGetLogGroup sampleConnector) paginateRequest)) sampleWorld)
     = newBuildloggerResponder sampleDeps ''log lines'' 0 77 True
   \<and> fst (logGroupHandler_Run sampleDeps
            (fst (logGroupHandler_Parse sampleDeps
                    (makeGetLogGroup sampleConnector) boundedRequest)) sampleWorld)
     = newBuildloggerResponder sampleDeps ''log lines'' 7 77 True"
proof -
  note th = C8_pages [where d = sampleDeps and data = "''log lines''" and lastT = 0 and nextT = 77
      and wt = sampleWorld
      and ht = "fst (logGetByTaskIDHandler_Parse sampleDeps
                    (makeGetLogByTaskID sampleConnector) paginateRequest)"]
  note th' = C8_pages [where d = refusingDeps and data = "''log lines''" and lastT = 0
      and nextT = 77]
  have 1: "newBuildloggerResponder sampleDeps ''log lines'' 0 77 True
     = TextResponder ''log lines''
         (Some \<lparr>Next = Some \<lparr>BaseURL = ''https://cedar.mongodb.com'', KeyQueryParam = ''start'',
                              LimitQueryParam = ''limit'', Key = ''later'',
                              PageLimit = 0, Relation = ''next''\<rparr>,
                Prev = Some \<lparr>BaseURL = ''https://cedar.mongodb.com'', KeyQueryParam = ''start'',
                              LimitQueryParam = ''limit'', Key = ''0001-01-01T00:00:00Z'',
                              PageLimit = 0, Relation = ''prev''\<rparr>\<rparr>)"
    using th [THEN conjunct2, THEN conjunct1]
    by (simp add: Let_def sampleDeps_def sample_Format_def)
  have 2: "newBuildloggerResponder refusingDeps ''log lines'' 0 77 True
     = MakeJSONErrorResponder (Wrapf (OtherError ''invalid page'') ''problem setting response pages'')"
    using th' [THEN conjunct2, THEN conjunct1]
    by (simp add: Let_def sampleDeps_def refusingDeps_def)
  have f: "FindLogsByTaskID
             (logGetByTaskIDHandler.sc (fst (logGetByTaskIDHandler_Parse sampleDeps
                    (makeGetLogByTaskID sampleConnector) paginateRequest)))
             (logGetByTaskIDHandler_options (fst (logGetByTaskIDHandler_Parse sampleDeps
                    (makeGetLogByTaskID sampleConnector) paginateRequest)))
             (store sampleWorld)
           = ((''log lines'', 77, True, None), Suc 0)"
    by (simp add: logGetByTaskIDHandler_Parse_fields makeGetLogByTaskID_def sampleConnector_def
        sampleLogResult_def sampleWorld_def)
  have t: "StartAt (logGetByTaskIDHandler.tr (fst (logGetByTaskIDHandler_Parse sampleDeps
                    (makeGetLogByTaskID sampleConnector) paginateRequest))) = 0"
    by (simp add: logGetByTaskIDHandler_Parse_fields sample_defs paginateRequest_def
        param_defs Values_Get_def)
  from th [THEN conjunct2, THEN conjunct2, THEN conjunct2, THEN conjunct1] f
  have "fst (logGetByTaskIDHandler_Run sampleDeps
            (fst (logGetByTaskIDHandler_Parse sampleDeps
                    (makeGetLogByTaskID sampleConnector) paginateRequest)) sampleWorld)
     = newBuildloggerResponder sampleDeps ''log lines''
         (StartAt (logGetByTaskIDHandler.tr (fst (logGetByTaskIDHandler_Parse sampleDeps
                    (makeGetLogByTaskID sampleConnector) paginateRequest)))) 77 True"
    by blast
  then have 3: "fst (logGetByTaskIDHandler_Run sampleDeps
            (fst (logGetByTaskIDHandler_Parse sampleDeps
                    (makeGetLogByTaskID sampleConnector) paginateRequest)) sampleWorld)
     = newBuildloggerResponder sampleDeps ''log lines'' 0 77 True"
    by (simp only: t)
  let ?g = "fst (logGroupHandler_Parse sampleDeps
                   (makeGetLogGroup sampleConnector) paginateRequest)"
  let ?b = "fst (logGroupHandler_Parse sampleDeps
                   (makeGetLogGroup sampleConnector) boundedRequest)"
  have m: "FindLogMetadataByTestName sampleConnector opts st = (([logB, logD], None), Suc st)"
    for opts st
    by (simp add: sampleConnector_def)
  have g: "FindGroupedLogs sampleConnector opts st = ((''log lines'', 77, True, None), Suc st)"
    for opts st
    by (simp add: sampleConnector_def sampleLogResult_def)
  have scg: "logGroupHandler.sc ?g = sampleConnector" "logGroupHandler.sc ?b = sampleConnector"
    by (simp_all add: logGroupHandler_Parse_fields makeGetLogGroup_def)
  have trg: "logGroupHandler.tr ?g = \<lparr>StartAt = 0, EndAt = 0\<rparr>"
    by (simp add: logGroupHandler_Parse_fields makeGetLogGroup_def paginateRequest_def
        param_defs Values_Get_def zeroTimeRange_def)
  have trb: "logGroupHandler.tr ?b = \<lparr>StartAt = 7, EndAt = 9\<rparr>"
    by (simp add: logGroupHandler_Parse_fields boundedRequest_def param_defs Values_Get_def
        sample_defs Atoi_defs)
  have zg: "TimeRange_IsZero (logGroupHandler.tr ?g)"
    by (simp add: trg TimeRange_IsZero_def Time_IsZero_def)
  have zb: "\<not> TimeRange_IsZero (logGroupHandler.tr ?b)"
    by (simp add: trb TimeRange_IsZero_def Time_IsZero_def)
  note tg = C8_pages [where d = sampleDeps and wg = sampleWorld and hg = ?g,
      THEN conjunct2, THEN conjunct2, THEN conjunct2, THEN conjunct2, THEN conjunct2,
      THEN conjunct2]
  note tb = C8_pages [where d = sampleDeps and wg = sampleWorld and hg = ?b,
      THEN conjunct2, THEN conjunct2, THEN conjunct2, THEN conjunct2, THEN conjunct2,
      THEN conjunct1]
  from tg zg have "fst (logGroupHandler_Run sampleDeps ?g sampleWorld)
     = newBuildloggerResponder sampleDeps ''log lines'' (StartAt (logGroupHandler.tr ?g)) 77 True"
    by (simp only: scg m g simp_thms)
  then have 4: "fst (logGroupHandler_Run sampleDeps ?g sampleWorld)
     = newBuildloggerResponder sampleDeps ''log lines'' 0 77 True"
    by (simp add: trg)
  from tb zb have "fst (logGroupHandler_Run sampleDeps ?b sampleWorld)
     = newBuildloggerResponder sampleDeps ''log lines'' (StartAt (logGroupHandler.tr ?b)) 77 True"
    by (simp only: scg g simp_thms)
  then have 5: "fst (logGroupHandler_Run sampleDeps ?b sampleWorld)
     = newBuildloggerResponder sampleDeps ''log lines'' 7 77 True"
    by (simp add: trb)
  from 1 2 3 4 5 show ?thesis by (intro conjI)
qed

subsection \<open>Inference of the time range of a group\<close>

lemma Max_insert_max:
  "finite S \<Longrightarrow> Max (insert (max a b) S) = Max (insert (a::int) (insert b S))"
  by (cases "S = {}") (simp_all add: max.assoc)

lemma Min_insert_min:
  "finite S \<Longrightarrow> Min (insert (min a b) S) = Min (insert (a::int) (insert b S))"
  by (cases "S = {}") (simp_all add: min.assoc)

text \<open>One round of the loop, with the two assignments written as one record.\<close>

lemma inferTimeRange_Cons:
  "inferTimeRange t (l # ls) =
   inferTimeRange
     \<lparr>StartAt = (if CreatedAt l < StartAt t \<or> StartAt t = 0 then CreatedAt l else StartAt t),
      EndAt = max (EndAt t) (CompletedAt l)\<rparr> ls"
  by (cases t) (simp add: Let_def Time_After_def Time_Before_def Time_IsZero_def max_def)

text \<open>The end of the range is a running maximum that starts from the range's own end.\<close>

lemma inferTimeRange_EndAt:
  "EndAt (inferTimeRange t logs) = Max (insert (EndAt t) (CompletedAt ` set logs))"
proof (induction logs arbitrary: t)
  case Nil
  then show ?case by simp
next
  case (Cons l ls)
  have "EndAt (inferTimeRange t (l # ls))
        = Max (insert (max (EndAt t) (CompletedAt l)) (CompletedAt ` set ls))"
    unfolding inferTimeRange_Cons by (simp only: Cons.IH TimeRange.simps)
  also have "\<dots> = Max (insert (EndAt t) (insert (CompletedAt l) (CompletedAt ` set ls)))"
    by (rule Max_insert_max) simp
  finally show ?case by simp
qed

text \<open>
  The start is a running minimum as long as it is never the zero instant: the loop
  reads a zero start as "not set yet".
\<close>

lemma inferTimeRange_StartAt_nonzero:
  "StartAt t \<noteq> 0 \<Longrightarrow> \<forall>l\<in>set logs. CreatedAt l \<noteq> 0 \<Longrightarrow>
   StartAt (inferTimeRange t logs) = Min (insert (StartAt t) (CreatedAt ` set logs))"
proof (induction logs arbitrary: t)
  case Nil
  then show ?case by simp
next
  case (Cons l ls)
  from Cons.prems have nz: "CreatedAt l \<noteq> 0" "\<forall>x\<in>set ls. CreatedAt x \<noteq> 0" by simp_all
  let ?t = "\<lparr>StartAt = min (StartAt t) (CreatedAt l), EndAt = max (EndAt t) (CompletedAt l)\<rparr>"
  have step: "inferTimeRange t (l # ls) = inferTimeRange ?t ls"
    unfolding inferTimeRange_Cons using Cons.prems(1) by (simp add: min_def)
  have "StartAt ?t \<noteq> 0" using Cons.prems(1) nz(1) by (simp add: min_def)
  then have "StartAt (inferTimeRange ?t ls) = Min (insert (StartAt ?t) (CreatedAt ` set ls))"
    using nz(2) by (rule Cons.IH)
  then have "StartAt (inferTimeRange t (l # ls))
             = Min (insert (min (StartAt t) (CreatedAt l)) (CreatedAt ` set ls))"
    unfolding step by simp
  also have "\<dots> = Min (insert (StartAt t) (insert (CreatedAt l) (CreatedAt ` set ls)))"
    by (rule Min_insert_min) simp
  finally show ?case by simp
qed

lemma inferTimeRange_StartAt_zero:
  assumes "StartAt t = 0" "logs \<noteq> []" "\<forall>l\<in>set logs. CreatedAt l \<noteq> 0"
  shows "StartAt (inferTimeRange t logs) = Min (CreatedAt ` set logs)"
proof (cases logs)
  case Nil
  with assms show ?thesis by simp
next
  case (Cons l ls)
  have "inferTimeRange t (l # ls)
        = inferTimeRange \<lparr>StartAt = CreatedAt l, EndAt = max (EndAt t) (CompletedAt l)\<rparr> ls"
    unfolding inferTimeRange_Cons using assms(1) by simp
  with Cons assms(3) show ?thesis
    by (simp add: inferTimeRange_StartAt_nonzero)
qed

lemma inferTimeRange_more: "TimeRange.more (inferTimeRange t logs) = TimeRange.more t"
  by (induction logs arbitrary: t) (simp_all add: Let_def)

text \<open>
  C2, as the spec states it, for every non-empty list of entries: the inferred start is
  the minimum of the creation instants, the inferred end the maximum of the completion
  instants, and the order of the entries does not matter. It fails: an entry whose
  creation instant is the zero instant resets the running start, so \<open>[logA, logB]\<close>
  gives the start 10 where the minimum is 0, and \<open>[logB, logA]\<close> gives another range;
  and the end never goes below the zero instant the loop starts from.
\<close>

theorem C2_counterexample:
  "StartAt (inferTimeRange zeroTimeRange [logA, logB]) \<noteq> Min (CreatedAt ` set [logA, logB])
   \<and> inferTimeRange zeroTimeRange [logA, logB] \<noteq> inferTimeRange zeroTimeRange [logB, logA]
   \<and> EndAt (inferTimeRange zeroTimeRange [logC]) \<noteq> Max (CompletedAt ` set [logC])"
  by (simp add: zeroTimeRange_def logA_def logB_def logC_def Let_def
      Time_After_def Time_Before_def Time_IsZero_def)

text \<open>
  C2, amended: for every non-empty list of entries none of which is created at the zero
  instant and one of which is completed at or after it, the range inferred from a zero
  range starts at the minimum of the creation instants, ends at the maximum of the
  completion instants, and is the same for every reordering of the list.
\<close>

theorem C2_inferred_range:
  assumes "TimeRange_IsZero t" and "logs \<noteq> []"
    and "\<forall>l\<in>set logs. \<not> Time_IsZero (CreatedAt l)"
    and "\<exists>l\<in>set logs. \<not> Time_Before (CompletedAt l) 0"
  shows "StartAt (inferTimeRange t logs) = Min (CreatedAt ` set logs)
       \<and> EndAt (inferTimeRange t logs) = Max (CompletedAt ` set logs)
       \<and> (\<forall>logs'. mset logs' = mset logs \<longrightarrow> inferTimeRange t logs' = inferTimeRange t logs)"
proof -
  from assms(1) have z: "StartAt t = 0" "EndAt t = 0"
    by (simp_all add: TimeRange_IsZero_def Time_IsZero_def)
  from assms(3) have nz: "\<forall>l\<in>set logs. CreatedAt l \<noteq> 0"
    by (simp add: Time_IsZero_def)
  have s: "StartAt (inferTimeRange t logs) = Min (CreatedAt ` set logs)"
    using z(1) assms(2) nz by (rule inferTimeRange_StartAt_zero)
  from assms(4) obtain l where l: "l \<in> set logs" "0 \<le> CompletedAt l"
    by (auto simp: Time_Before_def)
  have ne: "CompletedAt ` set logs \<noteq> {}" using assms(2) by simp
  have "CompletedAt l \<le> Max (CompletedAt ` set logs)"
    using l(1) by simp
  with l(2) have "0 \<le> Max (CompletedAt ` set logs)" by simp
  then have e: "EndAt (inferTimeRange t logs) = Max (CompletedAt ` set logs)"
    using ne by (simp add: inferTimeRange_EndAt z(2) max_def)
  have p: "inferTimeRange t logs' = inferTimeRange t logs" if "mset logs' = mset logs" for logs'
  proof -
    from that have eq: "set logs' = set logs" by (rule mset_eq_setD)
    with assms(2) have ne': "logs' \<noteq> []" by auto
    have "StartAt (inferTimeRange t logs') = Min (CreatedAt ` set logs')"
      using z(1) ne' nz eq by (simp add: inferTimeRange_StartAt_zero)
    with s eq have 1: "StartAt (inferTimeRange t logs') = StartAt (inferTimeRange t logs)"
      by simp
    have 2: "EndAt (inferTimeRange t logs') = EndAt (inferTimeRange t logs)"
      by (simp add: inferTimeRange_EndAt eq)
    show ?thesis using 1 2 by (simp add: TimeRange.equality inferTimeRange_more)
  qed
  from s e p show ?thesis by blast
qed

theorem C2_inferred_range_witness:
  "TimeRange_IsZero zeroTimeRange
   \<and> StartAt (inferTimeRange zeroTimeRange [logB, logD]) = 5
   \<and> EndAt (inferTimeRange zeroTimeRange [logB, logD]) = 40
   \<and> inferTimeRange zeroTimeRange [logD, logB] = inferTimeRange zeroTimeRange [logB, logD]"
proof -
  have h1: "TimeRange_IsZero zeroTimeRange"
    by (simp add: TimeRange_IsZero_def Time_IsZero_def zeroTimeRange_def)
  have h2: "[logB, logD] \<noteq> []" by simp
  have h3: "\<forall>l\<in>set [logB, logD]. \<not> Time_IsZero (CreatedAt l)"
    by (simp add: Time_IsZero_def logB_def logD_def)
  have h4: "\<exists>l\<in>set [logB, logD]. \<not> Time_Before (CompletedAt l) 0"
    by (simp add: Time_Before_def logB_def logD_def)
  have m: "mset [logD, logB] = mset [logB, logD]" by simp
  note th = C2_inferred_range [OF h1 h2 h3 h4]
  have a: "Min (CreatedAt ` set [logB, logD]) = 5" by (simp add: logB_def logD_def)
  have b: "Max (CompletedAt ` set [logB, logD]) = 40" by (simp add: logB_def logD_def)
  from th have "StartAt (inferTimeRange zeroTimeRange [logB, logD])
                = Min (CreatedAt ` set [logB, logD])" by (rule conjunct1)
  then have s: "StartAt (inferTimeRange zeroTimeRange [logB, logD]) = 5" by (simp only: a)
  from th have "EndAt (inferTimeRange zeroTimeRange [logB, logD])
                = Max (CompletedAt ` set [logB, logD])" by blast
  then have e: "EndAt (inferTimeRange zeroTimeRange [logB, logD]) = 40" by (simp only: b)
  from th m have c: "inferTimeRange zeroTimeRange [logD, logB]
                     = inferTimeRange zeroTimeRange [logB, logD]" by blast
  from h1 s e c show ?thesis by (intro conjI)
qed

subsection \<open>When the range of a group is inferred\<close>

lemma logGroupHandler_Run_metadata_error:
  assumes "TimeRange_IsZero (logGroupHandler.tr h)"
    and "FindLogMetadataByTestName (logGroupHandler.sc h) (logGroupHandler_options h) (store w)
         = ((logs, Some err), s)"
  shows "fst (logGroupHandler_Run d h w)
         = MakeJSONErrorResponder
             (Wrapf err (''Error getting log metadata by test name ''
                         @ quoted (logGroupHandler.name h)))"
  using assms
  by (simp add: logGroupHandler_Run_def logGroupHandler_options_TimeRange
      call_FindLogMetadataByTestName_def Let_def)

lemma zeroTimeRange_IsZero: "TimeRange_IsZero zeroTimeRange"
  by (simp add: TimeRange_IsZero_def Time_IsZero_def zeroTimeRange_def)

lemma logGroupHandler_Parse_no_bounds:
  assumes "Values_Get (Query r) logStartAt = []" and "Values_Get (Query r) logEndAt = []"
  shows "logGroupHandler.tr (fst (logGroupHandler_Parse d (logGroupHandler_Factory h) r))
         = zeroTimeRange"
  using assms
  by (simp add: logGroupHandler_Parse_fields logGroupHandler_Factory_def makeGetLogGroup_def)

text \<open>
  C7: the group handler fetches the metadata exactly when the range it holds is zero,
  and a handler fresh from \<open>Factory\<close> holds a zero range after \<open>Parse\<close> when the
  request has neither \<open>start\<close> nor \<open>end\<close> (with one of them it holds what
  \<open>parseTimeRange\<close> returned). When the metadata fetch fails, the response is that
  error, wrapped, and \<open>FindGroupedLogs\<close> is not called. When the fetch returns no
  entry, \<open>FindGroupedLogs\<close> is called with the zero range the handler holds.

  When the fetch succeeds, \<open>FindGroupedLogs\<close> is called next, with the options of
  the fetch and the range folded over the entries: its end is the latest completion
  instant (or the zero instant, if that is later), its start the earliest creation
  instant when no entry is created at the zero instant. When the range is not zero,
  \<open>FindGroupedLogs\<close> is the only call, with the handler's range.

  For a request parsed by a handler fresh from \<open>Factory\<close>, the range is zero, and
  the metadata fetched, exactly when both bounds are absent or \<open>parseTimeRange\<close>
  returned a zero range; so for a \<open>parseTimeRange\<close> that returns no zero range for
  this request's bounds, exactly when both bounds are absent.
\<close>

theorem C7_group_range_inference:
  "((\<exists>c\<in>set (newCalls w (snd (logGroupHandler_Run d h w))). isMetadataCall c)
      \<longleftrightarrow> TimeRange_IsZero (logGroupHandler.tr h))
   \<and> (Values_Get (Query r) logStartAt = [] \<and> Values_Get (Query r) logEndAt = []
        \<longrightarrow> TimeRange_IsZero
              (logGroupHandler.tr (fst (logGroupHandler_Parse d (logGroupHandler_Factory h) r))))
   \<and> (Values_Get (Query r) logStartAt \<noteq> [] \<or> Values_Get (Query r) logEndAt \<noteq> []
        \<longrightarrow> logGroupHandler.tr (fst (logGroupHandler_Parse d (logGroupHandler_Factory h) r))
            = fst (parseTimeRange d (Query r) logStartAt logEndAt))
   \<and> (\<forall>logs err s.
         TimeRange_IsZero (logGroupHandler.tr h)
         \<and> FindLogMetadataByTestName (logGroupHandler.sc h) (logGroupHandler_options h) (store w)
             = ((logs, Some err), s)
         \<longrightarrow> fst (logGroupHandler_Run d h w)
               = MakeJSONErrorResponder
                   (Wrapf err (''Error getting log metadata by test name ''
                               @ quoted (logGroupHandler.name h)))
             \<and> filter isGroupedCall (newCalls w (snd (logGroupHandler_Run d h w))) = [])
   \<and> (\<forall>s.
         TimeRange_IsZero (logGroupHandler.tr h)
         \<and> FindLogMetadataByTestName (logGroupHandler.sc h) (logGroupHandler_options h) (store w)
             = (([], None), s)
         \<longrightarrow> (\<exists>opts. filter isGroupedCall (newCalls w (snd (logGroupHandler_Run d h w)))
                        = [Call_FindGroupedLogs opts]
                      \<and> TimeRange opts = logGroupHandler.tr h
                      \<and> TimeRange_IsZero (TimeRange opts)))
   \<and> (\<forall>logs s.
         TimeRange_IsZero (logGroupHandler.tr h)
         \<and> FindLogMetadataByTestName (logGroupHandler.sc h) (logGroupHandler_options h) (store w)
             = ((logs, None), s)
         \<longrightarrow> newCalls w (snd (logGroupHandler_Run d h w))
               = [Call_FindLogMetadataByTestName (logGroupHandler_options h),
                  Call_FindGroupedLogs
                    ((logGroupHandler_options h)
                       \<lparr>TimeRange := inferTimeRange (logGroupHandler.tr h) logs\<rparr>)]
             \<and> EndAt (inferTimeRange (logGroupHandler.tr h) logs)
               = Max (insert 0 (CompletedAt ` set logs))
             \<and> (logs \<noteq> [] \<and> (\<forall>l\<in>set logs. \<not> Time_IsZero (CreatedAt l))
                  \<longrightarrow> StartAt (inferTimeRange (logGroupHandler.tr h) logs)
                      = Min (CreatedAt ` set logs)))
   \<and> (\<not> TimeRange_IsZero (logGroupHandler.tr h)
        \<longrightarrow> newCalls w (snd (logGroupHandler_Run d h w))
              = [Call_FindGroupedLogs (logGroupHandler_options h)]
            \<and> TimeRange (logGroupHandler_options h) = logGroupHandler.tr h)
   \<and> (TimeRange_IsZero
         (logGroupHandler.tr (fst (logGroupHandler_Parse d (logGroupHandler_Factory h) r)))
        \<longleftrightarrow> (Values_Get (Query r) logStartAt = [] \<and> Values_Get (Query r) logEndAt = [])
            \<or> TimeRange_IsZero (fst (parseTimeRange d (Query r) logStartAt logEndAt)))
   \<and> ((\<exists>c\<in>set (newCalls w
                  (snd (logGroupHandler_Run d
                          (fst (logGroupHandler_Parse d (logGroupHandler_Factory h) r)) w))).
           isMetadataCall c)
        \<longleftrightarrow> (Values_Get (Query r) logStartAt = [] \<and> Values_Get (Query r) logEndAt = [])
            \<or> TimeRange_IsZero (fst (parseTimeRange d (Query r) logStartAt logEndAt)))
   \<and> ((Values_Get (Query r) logStartAt \<noteq> [] \<or> Values_Get (Query r) logEndAt \<noteq> []
           \<longrightarrow> \<not> TimeRange_IsZero (fst (parseTimeRange d (Query r) logStartAt logEndAt)))
        \<longrightarrow> ((\<exists>c\<in>set (newCalls w
                      (snd (logGroupHandler_Run d
                              (fst (logGroupHandler_Parse d (logGroupHandler_Factory h) r)) w))).
                 isMetadataCall c)
             \<longleftrightarrow> Values_Get (Query r) logStartAt = [] \<and> Values_Get (Query r) logEndAt = []))"
proof -
  have fetch: "(\<exists>c\<in>set (newCalls w' (snd (logGroupHandler_Run d h' w'))). isMetadataCall c)
        \<longleftrightarrow> TimeRange_IsZero (logGroupHandler.tr h')" for h' :: "'a logGroupHandler" and w'
  proof -
    obtain logs e s where
      f: "FindLogMetadataByTestName (logGroupHandler.sc h') (logGroupHandler_options h') (store w')
          = ((logs, e), s)"
      by (metis prod.exhaust)
    show ?thesis
      unfolding logGroupHandler_Run_calls f
      by (cases e) simp_all
  qed
  have parsed: "TimeRange_IsZero
         (logGroupHandler.tr (fst (logGroupHandler_Parse d (logGroupHandler_Factory h) r)))
        \<longleftrightarrow> (Values_Get (Query r) logStartAt = [] \<and> Values_Get (Query r) logEndAt = [])
            \<or> TimeRange_IsZero (fst (parseTimeRange d (Query r) logStartAt logEndAt))"
    by (auto simp add: logGroupHandler_Parse_fields logGroupHandler_Factory_def
        makeGetLogGroup_def zeroTimeRange_IsZero)
  show ?thesis
proof (intro conjI allI impI)
  show "(\<exists>c\<in>set (newCalls w (snd (logGroupHandler_Run d h w))). isMetadataCall c)
        \<longleftrightarrow> TimeRange_IsZero (logGroupHandler.tr h)"
    by (rule fetch)
next
  assume "Values_Get (Query r) logStartAt = [] \<and> Values_Get (Query r) logEndAt = []"
  then show "TimeRange_IsZero
          (logGroupHandler.tr (fst (logGroupHandler_Parse d (logGroupHandler_Factory h) r)))"
    by (simp add: logGroupHandler_Parse_no_bounds zeroTimeRange_IsZero)
next
  assume "Values_Get (Query r) logStartAt \<noteq> [] \<or> Values_Get (Query r) logEndAt \<noteq> []"
  then show "logGroupHandler.tr (fst (logGroupHandler_Parse d (logGroupHandler_Factory h) r))
            = fst (parseTimeRange d (Query r) logStartAt logEndAt)"
    by (simp add: logGroupHandler_Parse_fields)
next
  fix logs err s
  assume a: "TimeRange_IsZero (logGroupHandler.tr h)
         \<and> FindLogMetadataByTestName (logGroupHandler.sc h) (logGroupHandler_options h) (store w)
             = ((logs, Some err), s)"
  then show "fst (logGroupHandler_Run d h w)
               = MakeJSONErrorResponder
                   (Wrapf err (''Error getting log metadata by test name ''
                               @ quoted (logGroupHandler.name h)))"
    by (simp add: logGroupHandler_Run_metadata_error)
  from a show "filter isGroupedCall (newCalls w (snd (logGroupHandler_Run d h w))) = []"
    unfolding logGroupHandler_Run_calls by simp
next
  fix s
  assume a: "TimeRange_IsZero (logGroupHandler.tr h)
         \<and> FindLogMetadataByTestName (logGroupHandler.sc h) (logGroupHandler_options h) (store w)
             = (([], None), s)"
  let ?opts = "(logGroupHandler_options h)\<lparr>TimeRange := inferTimeRange (logGroupHandler.tr h) []\<rparr>"
  from a have "filter isGroupedCall (newCalls w (snd (logGroupHandler_Run d h w)))
               = [Call_FindGroupedLogs ?opts]"
    unfolding logGroupHandler_Run_calls by simp
  moreover have "TimeRange ?opts = logGroupHandler.tr h" by simp
  moreover from a have "TimeRange_IsZero (TimeRange ?opts)" by simp
  ultimately show "\<exists>opts. filter isGroupedCall (newCalls w (snd (logGroupHandler_Run d h w)))
                        = [Call_FindGroupedLogs opts]
                      \<and> TimeRange opts = logGroupHandler.tr h
                      \<and> TimeRange_IsZero (TimeRange opts)"
    by blast
next
  fix logs s
  assume a: "TimeRange_IsZero (logGroupHandler.tr h)
         \<and> FindLogMetadataByTestName (logGroupHandler.sc h) (logGroupHandler_options h) (store w)
             = ((logs, None), s)"
  then have z: "StartAt (logGroupHandler.tr h) = 0" "EndAt (logGroupHandler.tr h) = 0"
    by (simp_all add: TimeRange_IsZero_def Time_IsZero_def)
  from a show "newCalls w (snd (logGroupHandler_Run d h w))
               = [Call_FindLogMetadataByTestName (logGroupHandler_options h),
                  Call_FindGroupedLogs
                    ((logGroupHandler_options h)
                       \<lparr>TimeRange := inferTimeRange (logGroupHandler.tr h) logs\<rparr>)]"
    unfolding logGroupHandler_Run_calls by simp
  show "EndAt (inferTimeRange (logGroupHandler.tr h) logs)
        = Max (insert 0 (CompletedAt ` set logs))"
    by (simp only: inferTimeRange_EndAt z)
  assume b: "logs \<noteq> [] \<and> (\<forall>l\<in>set logs. \<not> Time_IsZero (CreatedAt l))"
  then have "\<forall>l\<in>set logs. CreatedAt l \<noteq> 0" by (simp add: Time_IsZero_def)
  with z(1) b show "StartAt (inferTimeRange (logGroupHandler.tr h) logs)
                    = Min (CreatedAt ` set logs)"
    by (simp add: inferTimeRange_StartAt_zero)
next
  assume a: "\<not> TimeRange_IsZero (logGroupHandler.tr h)"
  then show "newCalls w (snd (logGroupHandler_Run d h w))
              = [Call_FindGroupedLogs (logGroupHandler_options h)]"
    unfolding logGroupHandler_Run_calls by simp
  show "TimeRange (logGroupHandler_options h) = logGroupHandler.tr h"
    by (rule logGroupHandler_options_TimeRange)
next
  show "TimeRange_IsZero
         (logGroupHandler.tr (fst (logGroupHandler_Parse d (logGroupHandler_Factory h) r)))
        \<longleftrightarrow> (Values_Get (Query r) logStartAt = [] \<and> Values_Get (Query r) logEndAt = [])
            \<or> TimeRange_IsZero (fst (parseTimeRange d (Query r) logStartAt logEndAt))"
    by (rule parsed)
next
  show "(\<exists>c\<in>set (newCalls w
                  (snd (logGroupHandler_Run d
                          (fst (logGroupHandler_Parse d (logGroupHandler_Factory h) r)) w))).
           isMetadataCall c)
        \<longleftrightarrow> (Values_Get (Query r) logStartAt = [] \<and> Values_Get (Query r) logEndAt = [])
            \<or> TimeRange_IsZero (fst (parseTimeRange d (Query r) logStartAt logEndAt))"
    by (simp only: fetch parsed)
next
  assume "Values_Get (Query r) logStartAt \<noteq> [] \<or> Values_Get (Query r) logEndAt \<noteq> []
           \<longrightarrow> \<not> TimeRange_IsZero (fst (parseTimeRange d (Query r) logStartAt logEndAt))"
  then show "(\<exists>c\<in>set (newCalls w
                      (snd (logGroupHandler_Run d
                              (fst (logGroupHandler_Parse d (logGroupHandler_Factory h) r)) w))).
                 isMetadataCall c)
             \<longleftrightarrow> Values_Get (Query r) logStartAt = [] \<and> Values_Get (Query r) logEndAt = []"
    unfolding fetch parsed by blast
qed
qed

theorem C7_group_range_inference_witness:
  "(\<exists>c\<in>set (newCalls sampleWorld
              (snd (logGroupHandler_Run sampleDeps
                      (fst (logGroupHandler_Parse sampleDeps
                              (logGroupHandler_Factory (makeGetLogGroup sampleConnector))
                              paginateRequest)) sampleWorld))). isMetadataCall c)
   \<and> fst (logGroupHandler_Run sampleDeps
            (fst (logGroupHandler_Parse sampleDeps
                    (logGroupHandler_Factory (makeGetLogGroup failingMetaConnector))
                    paginateRequest)) sampleWorld)
     = MakeJSONErrorResponder
         (Wrapf (OtherError ''store is down'')
                (''Error getting log metadata by test name '' @ quoted ''test1''))
   \<and> filter isGroupedCall
       (newCalls sampleWorld
          (snd (logGroupHandler_Run sampleDeps
                  (fst (logGroupHandler_Parse sampleDeps
                          (logGroupHandler_Factory (makeGetLogGroup failingMetaConnector))
                          paginateRequest)) sampleWorld))) = []
   \<and> (\<exists>opts. filter isGroupedCall
               (newCalls sampleWorld
                  (snd (logGroupHandler_Run sampleDeps
                          (fst (logGroupHandler_Parse sampleDeps
                                  (logGroupHandler_Factory (makeGetLogGroup emptyMetaConnector))
                                  paginateRequest)) sampleWorld)))
             = [Call_FindGroupedLogs opts]
           \<and> TimeRange opts = zeroTimeRange)
   \<and> map (\<lambda>c. TimeRange (callOpts c))
       (newCalls sampleWorld
          (snd (logGroupHandler_Run sampleDeps
                  (fst (logGroupHandler_Parse sampleDeps
                          (logGroupHandler_Factory (makeGetLogGroup sampleConnector))
                          paginateRequest)) sampleWorld)))
     = [zeroTimeRange, \<lparr>StartAt = 5, EndAt = 40\<rparr>]
   \<and> newCalls sampleWorld
       (snd (logGroupHandler_Run sampleDeps
               (fst (logGroupHandler_Parse sampleDeps
                       (logGroupHandler_Factory (makeGetLogGroup sampleConnector))
                       boundedRequest)) sampleWorld))
     = [Call_FindGroupedLogs
          (logGroupHandler_options
             (fst (logGroupHandler_Parse sampleDeps
                     (logGroupHandler_Factory (makeGetLogGroup sampleConnector))
                     boundedRequest)))]
   \<and> TimeRange
       (logGroupHandler_options
          (fst (logGroupHandler_Parse sampleDeps
                  (logGroupHandler_Factory (makeGetLogGroup sampleConnector))
                  boundedRequest)))
     = \<lparr>StartAt = 7, EndAt = 9\<rparr>"
proof -
  have q: "Values_Get (Query paginateRequest) logStartAt = []
           \<and> Values_Get (Query paginateRequest) logEndAt = []"
    by (simp add: paginateRequest_def Values_Get_def param_defs)
  let ?h = "\<lambda>c. fst (logGroupHandler_Parse sampleDeps
                       (logGroupHandler_Factory (makeGetLogGroup c)) paginateRequest)"
  have z: "TimeRange_IsZero (logGroupHandler.tr (?h c))" for c :: "nat Connector"
    using C7_group_range_inference
      [where d = sampleDeps and r = paginateRequest and h = "makeGetLogGroup c"] q
    by blast
  have tr: "logGroupHandler.tr (?h c) = zeroTimeRange" for c :: "nat Connector"
    using q by (simp add: logGroupHandler_Parse_no_bounds)
  have nm: "logGroupHandler.name (?h c) = ''test1''" for c :: "nat Connector"
    by (simp add: logGroupHandler_Parse_def Let_def paginateRequest_def sampleVars_def
        split: prod.splits list.splits)
  have sc: "logGroupHandler.sc (?h c) = c" for c :: "nat Connector"
    by (simp add: logGroupHandler_Parse_fields logGroupHandler_Factory_def makeGetLogGroup_def)
  have 1: "\<exists>c\<in>set (newCalls sampleWorld
              (snd (logGroupHandler_Run sampleDeps (?h sampleConnector) sampleWorld))).
             isMetadataCall c"
    using C7_group_range_inference
      [where d = sampleDeps and w = sampleWorld and h = "?h sampleConnector"] z
    by blast
  have f: "FindLogMetadataByTestName (logGroupHandler.sc (?h failingMetaConnector))
             (logGroupHandler_options (?h failingMetaConnector)) (store sampleWorld)
           = (([], Some (OtherError ''store is down'')), Suc 0)"
    by (simp add: sc failingMetaConnector_def sampleWorld_def)
  have 2: "fst (logGroupHandler_Run sampleDeps (?h failingMetaConnector) sampleWorld)
            = MakeJSONErrorResponder
                (Wrapf (OtherError ''store is down'')
                   (''Error getting log metadata by test name ''
                    @ quoted (logGroupHandler.name (?h failingMetaConnector))))
           \<and> filter isGroupedCall
               (newCalls sampleWorld
                  (snd (logGroupHandler_Run sampleDeps (?h failingMetaConnector) sampleWorld)))
             = []"
    using C7_group_range_inference
      [where d = sampleDeps and w = sampleWorld and h = "?h failingMetaConnector"] z f
    by blast
  have e: "FindLogMetadataByTestName (logGroupHandler.sc (?h emptyMetaConnector))
             (logGroupHandler_options (?h emptyMetaConnector)) (store sampleWorld)
           = (([], None), Suc 0)"
    by (simp add: sc emptyMetaConnector_def sampleWorld_def)
  have 3: "\<exists>opts. filter isGroupedCall
               (newCalls sampleWorld
                  (snd (logGroupHandler_Run sampleDeps (?h emptyMetaConnector) sampleWorld)))
             = [Call_FindGroupedLogs opts]
           \<and> TimeRange opts = logGroupHandler.tr (?h emptyMetaConnector)
           \<and> TimeRange_IsZero (TimeRange opts)"
    using C7_group_range_inference
      [where d = sampleDeps and w = sampleWorld and h = "?h emptyMetaConnector"] z e
    by blast
  from 2 have 2: "fst (logGroupHandler_Run sampleDeps (?h failingMetaConnector) sampleWorld)
            = MakeJSONErrorResponder
                (Wrapf (OtherError ''store is down'')
                   (''Error getting log metadata by test name '' @ quoted ''test1''))
           \<and> filter isGroupedCall
               (newCalls sampleWorld
                  (snd (logGroupHandler_Run sampleDeps (?h failingMetaConnector) sampleWorld)))
             = []"
    by (simp only: nm)
  from 3 have 3: "\<exists>opts. filter isGroupedCall
               (newCalls sampleWorld
                  (snd (logGroupHandler_Run sampleDeps (?h emptyMetaConnector) sampleWorld)))
             = [Call_FindGroupedLogs opts]
           \<and> TimeRange opts = zeroTimeRange"
    by (simp only: tr) blast
  have m: "FindLogMetadataByTestName (logGroupHandler.sc (?h sampleConnector))
             (logGroupHandler_options (?h sampleConnector)) (store sampleWorld)
           = (([logB, logD], None), Suc 0)"
    by (simp add: sc sampleConnector_def sampleWorld_def)
  have "newCalls sampleWorld
          (snd (logGroupHandler_Run sampleDeps (?h sampleConnector) sampleWorld))
        = [Call_FindLogMetadataByTestName (logGroupHandler_options (?h sampleConnector)),
           Call_FindGroupedLogs
             ((logGroupHandler_options (?h sampleConnector))
                \<lparr>TimeRange := inferTimeRange (logGroupHandler.tr (?h sampleConnector))
                                [logB, logD]\<rparr>)]"
    using C7_group_range_inference
      [where d = sampleDeps and w = sampleWorld and h = "?h sampleConnector"] z m
    by blast
  then have 4: "map (\<lambda>c. TimeRange (callOpts c))
       (newCalls sampleWorld
          (snd (logGroupHandler_Run sampleDeps (?h sampleConnector) sampleWorld)))
     = [zeroTimeRange, \<lparr>StartAt = 5, EndAt = 40\<rparr>]"
    by (simp add: logGroupHandler_options_TimeRange tr zeroTimeRange_def logB_def logD_def
        Let_def Time_After_def Time_Before_def Time_IsZero_def)
  let ?b = "fst (logGroupHandler_Parse sampleDeps
                   (logGroupHandler_Factory (makeGetLogGroup sampleConnector)) boundedRequest)"
  have trb: "logGroupHandler.tr ?b = \<lparr>StartAt = 7, EndAt = 9\<rparr>"
    by (simp add: logGroupHandler_Parse_fields boundedRequest_def param_defs Values_Get_def
        sample_defs Atoi_defs)
  have zb: "\<not> TimeRange_IsZero (logGroupHandler.tr ?b)"
    by (simp add: trb TimeRange_IsZero_def Time_IsZero_def)
  have "newCalls sampleWorld (snd (logGroupHandler_Run sampleDeps ?b sampleWorld))
          = [Call_FindGroupedLogs (logGroupHandler_options ?b)]
        \<and> TimeRange (logGroupHandler_options ?b) = logGroupHandler.tr ?b"
    using C7_group_range_inference
      [where d = sampleDeps and w = sampleWorld and h = ?b] zb
    by blast
  then have 5: "newCalls sampleWorld (snd (logGroupHandler_Run sampleDeps ?b sampleWorld))
          = [Call_FindGroupedLogs (logGroupHandler_options ?b)]
        \<and> TimeRange (logGroupHandler_options ?b) = \<lparr>StartAt = 7, EndAt = 9\<rparr>"
    by (simp only: trb)
  from 1 2 3 4 5 show ?thesis
    by (intro conjI) blast+
qed

subsection \<open>The previous page of a group\<close>

lemma logGroupHandler_Run_find_pages:
  assumes "fst (logGroupHandler_Run_find d h opts w) = TextResponder data (Some pages)"
  shows "\<exists>nextT. pages = newPages d (StartAt (logGroupHandler.tr h)) nextT"
proof -
  obtain bs nx pg e s where
    f: "FindGroupedLogs (logGroupHandler.sc h) opts (store w) = ((bs, nx, pg, e), s)"
    by (metis prod.exhaust)
  show ?thesis
  proof (cases e)
    case None
    with assms f have "newBuildloggerResponder d bs (StartAt (logGroupHandler.tr h)) nx pg
                       = TextResponder data (Some pages)"
      by (simp add: logGroupHandler_Run_find_def call_FindGroupedLogs_def)
    then have "pages = newPages d (StartAt (logGroupHandler.tr h)) nx"
      by (simp add: newBuildloggerResponder_pages)
    then show ?thesis by blast
  next
    case (Some err)
    with assms f show ?thesis
      by (simp add: logGroupHandler_Run_find_def call_FindGroupedLogs_def)
  qed
qed

text \<open>
  C9: for a request to the group handler with neither \<open>start\<close> nor \<open>end\<close>, a response
  that carries pages has as key of its previous page the RFC3339 format of the zero
  instant: the range the handler holds stays zero. The metadata fetch has then
  succeeded, and the range passed to \<open>FindGroupedLogs\<close> is the one inferred from its
  entries.
\<close>

theorem C9_group_prev_key:
  assumes "Values_Get (Query r) logStartAt = []" and "Values_Get (Query r) logEndAt = []"
    and "h = fst (logGroupHandler_Parse d (logGroupHandler_Factory h0) r)"
    and "fst (logGroupHandler_Run d h w) = TextResponder data (Some pages)"
  shows "Prev pages
           = Some \<lparr>BaseURL = ''https://cedar.mongodb.com'', KeyQueryParam = ''start'',
                   LimitQueryParam = ''limit'', Key = Format_RFC3339 d 0,
                   PageLimit = 0, Relation = ''prev''\<rparr>
         \<and> (\<exists>logs s.
               FindLogMetadataByTestName (logGroupHandler.sc h) (logGroupHandler_options h) (store w)
                 = ((logs, None), s)
               \<and> newCalls w (snd (logGroupHandler_Run d h w))
                 = [Call_FindLogMetadataByTestName (logGroupHandler_options h),
                    Call_FindGroupedLogs
                      ((logGroupHandler_options h)
                         \<lparr>TimeRange := inferTimeRange zeroTimeRange logs\<rparr>)])"
proof -
  from assms(1,2,3) have tr: "logGroupHandler.tr h = zeroTimeRange"
    by (simp add: logGroupHandler_Parse_no_bounds)
  then have z: "TimeRange_IsZero (logGroupHandler.tr h)"
    by (simp add: zeroTimeRange_IsZero)
  obtain logs e s where
    f: "FindLogMetadataByTestName (logGroupHandler.sc h) (logGroupHandler_options h) (store w)
        = ((logs, e), s)"
    by (metis prod.exhaust)
  have e: "e = None"
  proof (cases e)
    case None
    then show ?thesis .
  next
    case (Some err)
    with z f assms(4) show ?thesis
      by (simp add: logGroupHandler_Run_metadata_error)
  qed
  let ?w = "\<lparr>store = s, calls = calls w @ [Call_FindLogMetadataByTestName (logGroupHandler_options h)]\<rparr>"
  let ?opts = "(logGroupHandler_options h)\<lparr>TimeRange := inferTimeRange zeroTimeRange logs\<rparr>"
  from z f e have run: "logGroupHandler_Run d h w = logGroupHandler_Run_find d h ?opts ?w"
    by (simp add: logGroupHandler_Run_def logGroupHandler_options_TimeRange
        call_FindLogMetadataByTestName_def Let_def tr)
  with assms(4) obtain nextT where "pages = newPages d (StartAt (logGroupHandler.tr h)) nextT"
    using logGroupHandler_Run_find_pages by metis
  then have 1: "Prev pages
           = Some \<lparr>BaseURL = ''https://cedar.mongodb.com'', KeyQueryParam = ''start'',
                   LimitQueryParam = ''limit'', Key = Format_RFC3339 d 0,
                   PageLimit = 0, Relation = ''prev''\<rparr>"
    by (simp add: newPages_def tr zeroTimeRange_def baseURL_def)
  have 2: "newCalls w (snd (logGroupHandler_Run d h w))
           = [Call_FindLogMetadataByTestName (logGroupHandler_options h),
              Call_FindGroupedLogs ?opts]"
    unfolding logGroupHandler_Run_calls using z f e by (simp add: tr)
  from 1 2 f e show ?thesis by blast
qed

theorem C9_group_prev_key_witness:
  "(\<exists>pages. fst (logGroupHandler_Run sampleDeps
                  (fst (logGroupHandler_Parse sampleDeps
                          (logGroupHandler_Factory (makeGetLogGroup sampleConnector))
                          paginateRequest)) sampleWorld)
             = TextResponder ''log lines'' (Some pages)
           \<and> Prev pages
             = Some \<lparr>BaseURL = ''https://cedar.mongodb.com'', KeyQueryParam = ''start'',
                     LimitQueryParam = ''limit'', Key = ''0001-01-01T00:00:00Z'',
                     PageLimit = 0, Relation = ''prev''\<rparr>)
   \<and> map (\<lambda>c. TimeRange (callOpts c))
       (newCalls sampleWorld
          (snd (logGroupHandler_Run sampleDeps
                  (fst (logGroupHandler_Parse sampleDeps
                          (logGroupHandler_Factory (makeGetLogGroup sampleConnector))
                          paginateRequest)) sampleWorld)))
     = [zeroTimeRange, \<lparr>StartAt = 5, EndAt = 40\<rparr>]"
proof -
  let ?h = "fst (logGroupHandler_Parse sampleDeps
                   (logGroupHandler_Factory (makeGetLogGroup sampleConnector)) paginateRequest)"
  have q: "Values_Get (Query paginateRequest) logStartAt = []"
          "Values_Get (Query paginateRequest) logEndAt = []"
    by (simp_all add: paginateRequest_def Values_Get_def param_defs)
  have tr: "logGroupHandler.tr ?h = zeroTimeRange"
    using q by (simp add: logGroupHandler_Parse_no_bounds)
  have sc: "logGroupHandler.sc ?h = sampleConnector"
    by (simp add: logGroupHandler_Parse_fields logGroupHandler_Factory_def makeGetLogGroup_def)
  have m: "FindLogMetadataByTestName sampleConnector opts st = (([logB, logD], None), Suc st)"
    for opts st
    by (simp add: sampleConnector_def)
  have g: "FindGroupedLogs sampleConnector opts st = ((''log lines'', 77, True, None), Suc st)"
    for opts st
    by (simp add: sampleConnector_def sampleLogResult_def)
  have sp: "SetPages sampleDeps p = None" for p
    by (simp add: sampleDeps_def)
  have st: "StartAt zeroTimeRange = 0"
    by (simp add: zeroTimeRange_def)
  have run: "fst (logGroupHandler_Run sampleDeps ?h sampleWorld)
             = TextResponder ''log lines'' (Some (newPages sampleDeps 0 77))"
    by (simp add: logGroupHandler_Run_def logGroupHandler_Run_find_def
        logGroupHandler_options_TimeRange tr sc m g zeroTimeRange_IsZero
        call_FindLogMetadataByTestName_def call_FindGroupedLogs_def Let_def
        newBuildloggerResponder_def sp st)
  note th = C9_group_prev_key [OF q refl run]
  from th have 1: "Prev (newPages sampleDeps 0 77)
             = Some \<lparr>BaseURL = ''https://cedar.mongodb.com'', KeyQueryParam = ''start'',
                     LimitQueryParam = ''limit'', Key = ''0001-01-01T00:00:00Z'',
                     PageLimit = 0, Relation = ''prev''\<rparr>"
    by (simp add: sampleDeps_def sample_Format_def)
  from th have "newCalls sampleWorld (snd (logGroupHandler_Run sampleDeps ?h sampleWorld))
                 = [Call_FindLogMetadataByTestName (logGroupHandler_options ?h),
                    Call_FindGroupedLogs
                      ((logGroupHandler_options ?h)
                         \<lparr>TimeRange := inferTimeRange zeroTimeRange [logB, logD]\<rparr>)]"
    by (simp add: sc m)
  then have 2: "map (\<lambda>c. TimeRange (callOpts c))
       (newCalls sampleWorld (snd (logGroupHandler_Run sampleDeps ?h sampleWorld)))
     = [zeroTimeRange, \<lparr>StartAt = 5, EndAt = 40\<rparr>]"
    by (simp add: logGroupHandler_options_TimeRange tr zeroTimeRange_def logB_def logD_def
        Let_def Time_After_def Time_Before_def Time_IsZero_def)
  from run 1 2 show ?thesis by blast
qed

end
